theory Spec2Isabelle
  imports Complex_Main
begin

section \<open>JavaScript numbers\<close>

text \<open>
  The sources compute with JavaScript \<open>number\<close>s. A finite double is modelled by the real
  it denotes (\<open>Num r\<close>), and the three kinds of non-finite value are kept apart, because the
  code reaches them by dividing by zero and then compares, multiplies and loops on them.
  The operations follow IEEE 754 on these four kinds of value. Rounding, overflow to
  infinity and the sign of zero are not represented: arithmetic on finite values is exact,
  and a zero divisor counts as \<open>+0\<close>. The statements about the loops and about the
  stored elevations are worded so that they do not rest on this exactness: the values of a
  loop variable are those of repeated addition, never a closed form, and what a buffer of
  single-precision numbers keeps of a number is a parameter.
\<close>

datatype jsnum = Num real | PosInf | NegInf | NaN

instantiation jsnum :: "{plus, minus, uminus, times, inverse, ord}"
begin

fun uminus_jsnum :: "jsnum \<Rightarrow> jsnum" where
  "uminus_jsnum (Num a) = Num (- a)"
| "uminus_jsnum PosInf = NegInf"
| "uminus_jsnum NegInf = PosInf"
| "uminus_jsnum NaN = NaN"

fun plus_jsnum :: "jsnum \<Rightarrow> jsnum \<Rightarrow> jsnum" where
  "plus_jsnum (Num a) (Num b) = Num (a + b)"
| "plus_jsnum NaN _ = NaN"
| "plus_jsnum _ NaN = NaN"
| "plus_jsnum PosInf NegInf = NaN"
| "plus_jsnum NegInf PosInf = NaN"
| "plus_jsnum PosInf _ = PosInf"
| "plus_jsnum _ PosInf = PosInf"
| "plus_jsnum NegInf _ = NegInf"
| "plus_jsnum _ NegInf = NegInf"

definition minus_jsnum :: "jsnum \<Rightarrow> jsnum \<Rightarrow> jsnum" where
  "minus_jsnum (a :: jsnum) (b :: jsnum) = a + (- b)"

fun times_jsnum :: "jsnum \<Rightarrow> jsnum \<Rightarrow> jsnum" where
  "times_jsnum (Num a) (Num b) = Num (a * b)"
| "times_jsnum NaN _ = NaN"
| "times_jsnum _ NaN = NaN"
| "times_jsnum PosInf (Num b) = (if b = 0 then NaN else if 0 < b then PosInf else NegInf)"
| "times_jsnum NegInf (Num b) = (if b = 0 then NaN else if 0 < b then NegInf else PosInf)"
| "times_jsnum (Num a) PosInf = (if a = 0 then NaN else if 0 < a then PosInf else NegInf)"
| "times_jsnum (Num a) NegInf = (if a = 0 then NaN else if 0 < a then NegInf else PosInf)"
| "times_jsnum PosInf PosInf = PosInf"
| "times_jsnum NegInf NegInf = PosInf"
| "times_jsnum PosInf NegInf = NegInf"
| "times_jsnum NegInf PosInf = NegInf"

fun divide_jsnum :: "jsnum \<Rightarrow> jsnum \<Rightarrow> jsnum" where
  "divide_jsnum (Num a) (Num b) =
     (if b \<noteq> 0 then Num (a / b)
      else if a = 0 then NaN else if 0 < a then PosInf else NegInf)"
| "divide_jsnum NaN _ = NaN"
| "divide_jsnum _ NaN = NaN"
| "divide_jsnum (Num a) PosInf = Num 0"
| "divide_jsnum (Num a) NegInf = Num 0"
| "divide_jsnum PosInf (Num b) = (if 0 \<le> b then PosInf else NegInf)"
| "divide_jsnum NegInf (Num b) = (if 0 \<le> b then NegInf else PosInf)"
| "divide_jsnum PosInf PosInf = NaN"
| "divide_jsnum PosInf NegInf = NaN"
| "divide_jsnum NegInf PosInf = NaN"
| "divide_jsnum NegInf NegInf = NaN"

definition inverse_jsnum :: "jsnum \<Rightarrow> jsnum" where
  "inverse_jsnum (a :: jsnum) = divide (Num 1) a"

fun less_jsnum :: "jsnum \<Rightarrow> jsnum \<Rightarrow> bool" where
  "less_jsnum (Num a) (Num b) = (a < b)"
| "less_jsnum NaN _ = False"
| "less_jsnum _ NaN = False"
| "less_jsnum NegInf NegInf = False"
| "less_jsnum NegInf _ = True"
| "less_jsnum PosInf _ = False"
| "less_jsnum _ PosInf = True"
| "less_jsnum _ NegInf = False"

fun less_eq_jsnum :: "jsnum \<Rightarrow> jsnum \<Rightarrow> bool" where
  "less_eq_jsnum (Num a) (Num b) = (a \<le> b)"
| "less_eq_jsnum NaN _ = False"
| "less_eq_jsnum _ NaN = False"
| "less_eq_jsnum NegInf _ = True"
| "less_eq_jsnum _ PosInf = True"
| "less_eq_jsnum PosInf (Num b) = False"
| "less_eq_jsnum PosInf NegInf = False"
| "less_eq_jsnum (Num a) NegInf = False"

instance ..

end

text \<open>
  The functions of \<open>Math\<close> the sources call. On a finite argument \<open>Math.sin\<close> and
  \<open>Math.cos\<close> are the sine and cosine of the reals.
\<close>

fun Math_sin :: "jsnum \<Rightarrow> jsnum" where
  "Math_sin (Num a) = Num (sin a)"
| "Math_sin _ = NaN"

fun Math_cos :: "jsnum \<Rightarrow> jsnum" where
  "Math_cos (Num a) = Num (cos a)"
| "Math_cos _ = NaN"

fun Math_floor :: "jsnum \<Rightarrow> jsnum" where
  "Math_floor (Num a) = Num (of_int \<lfloor>a\<rfloor>)"
| "Math_floor v = v"

fun Math_min :: "jsnum \<Rightarrow> jsnum \<Rightarrow> jsnum" where
  "Math_min NaN _ = NaN"
| "Math_min _ NaN = NaN"
| "Math_min a b = (if a < b then a else b)"

text \<open>Truthiness of a number: \<open>0\<close> and \<open>NaN\<close> are falsy.\<close>

fun truthy :: "jsnum \<Rightarrow> bool" where
  "truthy (Num a) = (a \<noteq> 0)"
| "truthy NaN = False"
| "truthy _ = True"

section \<open>Noise field\<close>

text \<open>\<open>perlinNoise(x, y, seed)\<close>: the fractional part of a scaled sine.\<close>

definition perlinNoise :: "jsnum \<Rightarrow> jsnum \<Rightarrow> jsnum \<Rightarrow> jsnum" where
  "perlinNoise x y seed =
     (let n = Math_sin (x * Num 12.9898 + y * Num 78.233 + seed) * Num 43758.5453
      in n - Math_floor n)"

text \<open>
  \<open>improvedPerlinNoise\<close>: the loop \<open>for (let i = 0; i < octaves; i++)\<close> over the four
  variables \<open>value\<close>, \<open>amplitude\<close>, \<open>frequency\<close> and \<open>maxValue\<close>. The octave count is a
  natural number (the callers pass 4 and 3).
\<close>

definition octave_step ::
  "jsnum \<Rightarrow> jsnum \<Rightarrow> jsnum \<Rightarrow> jsnum \<Rightarrow> jsnum \<Rightarrow> nat
     \<Rightarrow> jsnum \<times> jsnum \<times> jsnum \<times> jsnum \<Rightarrow> jsnum \<times> jsnum \<times> jsnum \<times> jsnum" where
  "octave_step x y persistence lacunarity seed i =
     (\<lambda>(value, amplitude, frequency, maxValue).
        (value + perlinNoise (x * frequency) (y * frequency) (seed + Num (real i)) * amplitude,
         amplitude * persistence,
         frequency * lacunarity,
         maxValue + amplitude))"

definition improvedPerlinNoise ::
  "jsnum \<Rightarrow> jsnum \<Rightarrow> nat \<Rightarrow> jsnum \<Rightarrow> jsnum \<Rightarrow> jsnum \<Rightarrow> jsnum" where
  "improvedPerlinNoise x y octaves persistence lacunarity seed =
     (case fold (octave_step x y persistence lacunarity seed) [0..<octaves]
             (Num 0, Num 1, Num 1, Num 0) of
        (value, amplitude, frequency, maxValue) \<Rightarrow> value / maxValue)"

section \<open>Objects of the graphics library\<close>

datatype vector3 = Vector3 (vec_x: jsnum) (vec_y: jsnum) (vec_z: jsnum)

text \<open>
  A \<open>THREE.Mesh\<close> as the generator uses it: the flat \<open>position\<close> buffer of its geometry
  (three numbers per vertex) and its rotation about the X axis.
\<close>

record mesh =
  positions :: "jsnum list"
  rotation_x :: jsnum

record intersection =
  ray_distance :: jsnum
  point :: vector3

text \<open>
  What the generator takes from the library is a parameter of the model:
  \<open>PlaneGeometry(width, height, widthSegments, heightSegments)\<close> gives the position buffer
  of a new plane; \<open>storePosition\<close> is what that buffer, a \<open>Float32Array\<close>, keeps of a
  number written to it (the number in single precision); and
  \<open>intersectObject mesh origin direction\<close> is
  \<open>new THREE.Raycaster(origin, direction).intersectObject(mesh)\<close>, the intersections
  ordered by distance from the origin.
\<close>

record three =
  PlaneGeometry :: "jsnum \<Rightarrow> jsnum \<Rightarrow> jsnum \<Rightarrow> jsnum \<Rightarrow> jsnum list"
  storePosition :: "jsnum \<Rightarrow> jsnum"
  intersectObject :: "mesh \<Rightarrow> vector3 \<Rightarrow> vector3 \<Rightarrow> intersection list"

section \<open>Terrain generator\<close>

record TerrainConfig =
  width :: jsnum
  height :: jsnum
  widthSegments :: jsnum
  heightSegments :: jsnum
  scale :: jsnum
  maxHeight :: jsnum

record TreeConfig =
  trunkRadius :: jsnum
  trunkHeight :: jsnum
  foliageRadius :: jsnum
  foliageHeight :: jsnum

text \<open>
  The deformation loop of \<open>createTerrain\<close>,
  \<open>for (let i = 0; i < positions.length; i += 3)\<close>: it reads \<open>positions[i]\<close> and
  \<open>positions[i + 1]\<close> and writes \<open>positions[i + 2]\<close>, where the buffer keeps \<open>store z\<close> of
  the number \<open>z\<close> written. A last group of fewer than three numbers is left as it is,
  since a write past the end of a typed array is dropped.
\<close>

fun displace :: "(jsnum \<Rightarrow> jsnum) \<Rightarrow> TerrainConfig \<Rightarrow> jsnum list \<Rightarrow> jsnum list" where
  "displace store config (x # y # z0 # rest) =
     x # y #
     store
       (improvedPerlinNoise (x / scale config) (y / scale config) 4 (Num 0.5) (Num 2) (Num 42)
          * maxHeight config) #
     displace store config rest"
| "displace store config rest = rest"

definition createTerrain :: "three \<Rightarrow> TerrainConfig \<Rightarrow> mesh" where
  "createTerrain lib config =
     \<lparr>positions =
        displace (storePosition lib) config
          (PlaneGeometry lib (width config) (height config)
             (widthSegments config) (heightSegments config)),
      rotation_x = - (Num pi) / Num 2\<rparr>"

text \<open>
  A tree is a group at \<open>position\<close> with four child meshes (trunk, main, upper and side
  foliage), each at its local position.
\<close>

record tree =
  tree_position :: vector3
  tree_children :: "vector3 list"

definition createTree :: "vector3 \<Rightarrow> TreeConfig \<Rightarrow> tree" where
  "createTree position treeConfig =
     \<lparr>tree_position = position,
      tree_children =
        [Vector3 (Num 0) (trunkHeight treeConfig / Num 2) (Num 0),
         Vector3 (Num 0) (trunkHeight treeConfig + foliageHeight treeConfig * Num 0.3) (Num 0),
         Vector3 (Num 0) (trunkHeight treeConfig + foliageHeight treeConfig * Num 0.9) (Num 0),
         Vector3 (foliageRadius treeConfig * Num 0.4)
           (trunkHeight treeConfig + foliageHeight treeConfig * Num 0.5) (Num 0)]\<rparr>"

text \<open>
  The loop \<open>for (let v = start; v < limit; v += step) body\<close>, threading the data the body
  updates. It need not end (a step that is not positive never reaches the limit), so it is
  a partial function: \<open>None\<close> is a loop that runs forever.
\<close>

partial_function (option) for_loop ::
  "jsnum \<Rightarrow> jsnum \<Rightarrow> (jsnum \<Rightarrow> 'a \<Rightarrow> 'a option) \<Rightarrow> jsnum \<Rightarrow> 'a \<Rightarrow> 'a option" where
  "for_loop limit step body v acc =
     (if v < limit
      then Option.bind (body v acc) (\<lambda>acc'. for_loop limit step body (v + step) acc')
      else Some acc)"

text \<open>
  \<open>generateTreePositions(terrain, gridSize, density, seed)\<close>; the callers' defaults
  (\<open>density = 0.1\<close>, \<open>seed = 123\<close>) are passed by the callers below.
\<close>

definition generateTreePositions ::
  "three \<Rightarrow> mesh \<Rightarrow> jsnum \<Rightarrow> jsnum \<Rightarrow> jsnum \<Rightarrow> vector3 list option" where
  "generateTreePositions lib terrain gridSize density seed =
     (let step = Num 1 / (density * Num 10) in
      for_loop (gridSize / Num 2) step
        (\<lambda>x positions.
           for_loop (gridSize / Num 2) step
             (\<lambda>z positions.
                (let noise =
                       improvedPerlinNoise (x / Num 5) (z / Num 5) 3 (Num 0.5) (Num 2) seed in
                 if Num 0.6 < noise
                 then
                   (let intersects =
                          intersectObject lib terrain
                            (Vector3 x (Num 100) z) (Vector3 (Num 0) (Num (- 1)) (Num 0)) in
                    if 0 < length intersects
                    then Some (positions @
                           [Vector3 x (vec_y (point (intersects ! 0)) + Num 0.5) z])
                    else Some positions)
                 else Some positions))
             (- gridSize / Num 2) positions)
        (- gridSize / Num 2) [])"

text \<open>
  The candidates the two loops of \<open>generateTreePositions\<close> visit, in the order they are
  visited: the same loop headers, with a body that records \<open>(x, z)\<close>.
\<close>

definition scannedCandidates :: "jsnum \<Rightarrow> jsnum \<Rightarrow> (jsnum \<times> jsnum) list option" where
  "scannedCandidates gridSize density =
     (let step = Num 1 / (density * Num 10) in
      for_loop (gridSize / Num 2) step
        (\<lambda>x visited.
           for_loop (gridSize / Num 2) step
             (\<lambda>z visited. Some (visited @ [(x, z)]))
             (- gridSize / Num 2) visited)
        (- gridSize / Num 2) [])"

text \<open>
  The state of a \<open>TerrainGenerator\<close>. \<open>trees\<close> is the list of children of the group
  \<open>this.trees\<close>: \<open>add\<close> appends a child and \<open>clear\<close> removes them all.
\<close>

record TerrainGenerator =
  terrain :: mesh
  trees :: "tree list"
  config :: TerrainConfig
  treeConfig :: TreeConfig

definition default_terrainConfig :: TerrainConfig where
  "default_terrainConfig =
     \<lparr>width = Num 100, height = Num 100, widthSegments = Num 64, heightSegments = Num 64,
      scale = Num 15, maxHeight = Num 15\<rparr>"

definition default_treeConfig :: TreeConfig where
  "default_treeConfig =
     \<lparr>trunkRadius = Num 0.3, trunkHeight = Num 2, foliageRadius = Num 1.5,
      foliageHeight = Num 2.5\<rparr>"

definition new_TerrainGenerator ::
  "three \<Rightarrow> TerrainConfig \<Rightarrow> TreeConfig \<Rightarrow> TerrainGenerator" where
  "new_TerrainGenerator lib terrainConfig treeConfig' =
     \<lparr>terrain = createTerrain lib terrainConfig, trees = [],
      config = terrainConfig, treeConfig = treeConfig'\<rparr>"

text \<open>
  The group a call returns, as it is when the call returns: the terrain and the children
  of the tree group.
\<close>

record scene =
  scene_terrain :: mesh
  scene_trees :: "tree list"

text \<open>
  The density argument of \<open>generate\<close>,
  \<open>treeCount ? treeCount / (this.config.width * this.config.height) : 0.05\<close>.
  An argument that is not given is \<open>None\<close>.
\<close>

definition generate_density :: "TerrainConfig \<Rightarrow> jsnum option \<Rightarrow> jsnum" where
  "generate_density cfg treeCount =
     (case treeCount of
        None \<Rightarrow> Num 0.05
      | Some n \<Rightarrow> if truthy n then n / (width cfg * height cfg) else Num 0.05)"

definition generate ::
  "three \<Rightarrow> TerrainGenerator \<Rightarrow> jsnum option \<Rightarrow> (scene \<times> TerrainGenerator) option" where
  "generate lib this treeCount =
     Option.bind
       (generateTreePositions lib (terrain this)
          (Math_min (width (config this)) (height (config this)))
          (generate_density (config this) treeCount)
          (Num 123))
       (\<lambda>treePositions.
          let this' = this\<lparr>trees :=
                         trees this @
                         map (\<lambda>position. createTree position (treeConfig this)) treePositions\<rparr>
          in Some (\<lparr>scene_terrain = terrain this', scene_trees = trees this'\<rparr>, this'))"

text \<open>
  \<open>regenerate(seed)\<close>. A caller that gives no seed gets \<open>Math.random() * 1000\<close>; in the
  model the seed is always given.
\<close>

definition regenerate ::
  "three \<Rightarrow> TerrainGenerator \<Rightarrow> jsnum \<Rightarrow> (scene \<times> TerrainGenerator) option" where
  "regenerate lib this seed =
     (let this1 = this\<lparr>trees := []\<rparr>;
          this2 = this1\<lparr>terrain := createTerrain lib (config this1)\<rparr>
      in Option.bind
           (generateTreePositions lib (terrain this2)
              (Math_min (width (config this2)) (height (config this2)))
              (Num 0.05)
              seed)
           (\<lambda>treePositions.
              let this' = this2\<lparr>trees :=
                             trees this2 @
                             map (\<lambda>position. createTree position (treeConfig this2))
                               treePositions\<rparr>
              in Some (\<lparr>scene_terrain = terrain this', scene_trees = trees this'\<rparr>, this')))"

record stats =
  terrainVertices :: jsnum
  treeCount :: jsnum
  terrainSize :: "jsnum \<times> jsnum"

definition getStats :: "TerrainGenerator \<Rightarrow> stats" where
  "getStats this =
     \<lparr>terrainVertices = Num (real (length (positions (terrain this)))) / Num 3,
      treeCount = Num (real (length (trees this))),
      terrainSize = (width (config this), height (config this))\<rparr>"

section \<open>Camera controller\<close>

text \<open>
  The fields of an \<open>RTSCameraController\<close>. Of the camera object, the model keeps the
  position \<open>updateCameraPosition\<close> sets and the point it is turned to.
\<close>

record RTSCameraController =
  camera_position :: vector3
  camera_lookAt :: vector3
  target :: vector3
  panSpeed :: jsnum
  zoomSpeed :: jsnum
  rotationSpeed :: jsnum
  minZoom :: jsnum
  maxZoom :: jsnum
  minPitch :: jsnum
  maxPitch :: jsnum
  distance :: jsnum
  pitch :: jsnum
  yaw :: jsnum
  keysPressed :: "string set"
  mouseDown :: bool
  lastMouseX :: jsnum
  lastMouseY :: jsnum

text \<open>\<open>THREE.MathUtils.degToRad\<close>: degrees times \<open>Math.PI / 180\<close>.\<close>

definition degToRad :: "jsnum \<Rightarrow> jsnum" where
  "degToRad degrees = degrees * (Num pi / Num 180)"

definition updateCameraPosition :: "RTSCameraController \<Rightarrow> RTSCameraController" where
  "updateCameraPosition this =
     (let pitchRad = degToRad (pitch this);
          yawRad = yaw this;
          x = vec_x (target this) + distance this * Math_sin yawRad * Math_cos pitchRad;
          y = vec_y (target this) + distance this * Math_sin pitchRad;
          z = vec_z (target this) + distance this * Math_cos yawRad * Math_cos pitchRad
      in this\<lparr>camera_position := Vector3 x y z, camera_lookAt := target this\<rparr>)"

text \<open>\<open>reset(target?)\<close>: an argument that is not given is \<open>None\<close>.\<close>

definition reset :: "RTSCameraController \<Rightarrow> vector3 option \<Rightarrow> RTSCameraController" where
  "reset this target' =
     (let this1 = (case target' of Some t \<Rightarrow> this\<lparr>target := t\<rparr> | None \<Rightarrow> this);
          this2 = this1\<lparr>distance := Num 50\<rparr>;
          this3 = this2\<lparr>pitch := Num 45\<rparr>;
          this4 = this3\<lparr>yaw := Num 0\<rparr>;
          this5 = this4\<lparr>keysPressed := {}\<rparr>
      in updateCameraPosition this5)"

section \<open>The placement pass as the specification words it\<close>

text \<open>
  The values a loop variable takes in its first \<open>n\<close> rounds: the start value, then each
  time the value before plus the step, added as the program adds it.
\<close>

fun loop_values :: "nat \<Rightarrow> jsnum \<Rightarrow> jsnum \<Rightarrow> jsnum list" where
  "loop_values 0 v step = []"
| "loop_values (Suc n) v step = v # loop_values n (v + step) step"

text \<open>
  The loop from \<open>v\<close> makes exactly \<open>n\<close> rounds: the first \<open>n\<close> values are below the limit
  and the next one is not.
\<close>

fun loop_rounds :: "nat \<Rightarrow> jsnum \<Rightarrow> jsnum \<Rightarrow> jsnum \<Rightarrow> bool" where
  "loop_rounds 0 limit step v = (\<not> v < limit)"
| "loop_rounds (Suc n) limit step v = (v < limit \<and> loop_rounds n limit step (v + step))"

text \<open>
  The anchors a candidate \<open>(x, z)\<close> contributes: one if its noise value exceeds 0.6 and
  the downward ray from above it hits the surface (the first intersection's elevation plus
  0.5), none otherwise.
\<close>

definition spec_anchor :: "three \<Rightarrow> mesh \<Rightarrow> jsnum \<Rightarrow> jsnum \<Rightarrow> jsnum \<Rightarrow> vector3 list" where
  "spec_anchor lib surface seed x z =
     (if Num 0.6 < improvedPerlinNoise (x / Num 5) (z / Num 5) 3 (Num 0.5) (Num 2) seed
      then
        (case intersectObject lib surface
                (Vector3 x (Num 100) z) (Vector3 (Num 0) (Num (- 1)) (Num 0)) of
           [] \<Rightarrow> []
         | hit # _ \<Rightarrow> [Vector3 x (vec_y (point hit) + Num 0.5) z])
      else [])"

text \<open>
  The anchors of a grid with the given axis, the \<open>x\<close> axis in the outer position and the
  \<open>z\<close> axis in the inner one, and the candidates of that grid in the same order.
\<close>

definition spec_anchors :: "three \<Rightarrow> mesh \<Rightarrow> jsnum \<Rightarrow> jsnum list \<Rightarrow> vector3 list" where
  "spec_anchors lib surface seed axis =
     concat (map (\<lambda>x. concat (map (\<lambda>z. spec_anchor lib surface seed x z) axis)) axis)"

definition spec_candidates :: "jsnum list \<Rightarrow> (jsnum \<times> jsnum) list" where
  "spec_candidates axis = concat (map (\<lambda>x. map (\<lambda>z. (x, z)) axis) axis)"

section \<open>A concrete scene\<close>

text \<open>
  The position buffer \<open>PlaneGeometry(width, height, 1, 1)\<close> builds, its four corners row
  by row; a store that keeps a number as it is (the elevation stored in the scenes below is
  0, a single-precision number); and a ray caster that reports, for every ray, the point at
  elevation 0 under the origin of the ray. That is what the library's ray caster finds on
  the flat terrain of the scenes below when the world matrix of the mesh is up to date; for
  a mesh just built it is not, and the library then tests the plane as it is before its
  rotation. The theorems are about every library; this one makes the branch that places an
  anchor run.
\<close>

definition one_segment_plane :: three where
  "one_segment_plane =
     \<lparr>PlaneGeometry = (\<lambda>w h ws hs.
        [- (w / Num 2), h / Num 2, Num 0,
         w / Num 2, h / Num 2, Num 0,
         - (w / Num 2), - (h / Num 2), Num 0,
         w / Num 2, - (h / Num 2), Num 0]),
      storePosition = (\<lambda>v. v),
      intersectObject = (\<lambda>surface origin direction.
        [\<lparr>ray_distance = vec_y origin,
          point = Vector3 (vec_x origin) (Num 0) (vec_z origin)\<rparr>])\<rparr>"

definition flat_config :: TerrainConfig where
  "flat_config =
     \<lparr>width = Num 100, height = Num 100, widthSegments = Num 1, heightSegments = Num 1,
      scale = Num 15, maxHeight = Num 0\<rparr>"

text \<open>The same surface with a region of 4 by 4.\<close>

definition small_config :: TerrainConfig where
  "small_config =
     \<lparr>width = Num 4, height = Num 4, widthSegments = Num 1, heightSegments = Num 1,
      scale = Num 15, maxHeight = Num 0\<rparr>"

section \<open>Anchors that sit on the surface\<close>

text \<open>
  An anchor position sits on the surface when the downward ray from \<open>(x, 100, z)\<close> above it
  hits the surface and the anchor's \<open>y\<close> is the elevation of the first intersection plus
  0.5.
\<close>

definition on_surface :: "three \<Rightarrow> mesh \<Rightarrow> vector3 \<Rightarrow> bool" where
  "on_surface lib surface p =
     (let hits = intersectObject lib surface (Vector3 (vec_x p) (Num 100) (vec_z p))
                   (Vector3 (Num 0) (Num (- 1)) (Num 0))
      in hits \<noteq> [] \<and> vec_y p = vec_y (point (hits ! 0)) + Num 0.5)"

section \<open>Facts about the noise field\<close>

lemma perlinNoise_Num:
  "perlinNoise (Num x) (Num y) (Num s) =
     Num (frac (sin (x * 12.9898 + y * 78.233 + s) * 43758.5453))"
  by (simp add: perlinNoise_def Let_def minus_jsnum_def frac_def)

text \<open>
  The state of the octave loop after \<open>n\<close> rounds, for finite arguments and a persistence
  that is not negative: the four variables are finite, \<open>value\<close> and \<open>amplitude\<close> are not
  negative, and from the first round on \<open>value\<close> is below \<open>maxValue\<close>.
\<close>

lemma octave_loop_invariant:
  assumes "0 \<le> p"
  shows "\<exists>v a f m.
           fold (octave_step (Num x) (Num y) (Num p) (Num l) (Num s)) [0..<n]
             (Num 0, Num 1, Num 1, Num 0) = (Num v, Num a, Num f, Num m)
           \<and> 0 \<le> v \<and> 0 \<le> a \<and> (if n = 0 then v = 0 \<and> m = 0 \<and> a = 1 else v < m)"
proof (induction n)
  case 0
  show ?case by simp
next
  case (Suc n)
  then obtain v a f m where
    st: "fold (octave_step (Num x) (Num y) (Num p) (Num l) (Num s)) [0..<n]
           (Num 0, Num 1, Num 1, Num 0) = (Num v, Num a, Num f, Num m)"
    and v: "0 \<le> v" and a: "0 \<le> a"
    and c: "if n = 0 then v = 0 \<and> m = 0 \<and> a = 1 else v < m"
    by blast
  define q where "q = frac (sin (x * f * 12.9898 + y * f * 78.233 + (s + real n)) * 43758.5453)"
  have q: "0 \<le> q" "q < 1"
    by (simp_all add: q_def frac_lt_1)
  have step: "fold (octave_step (Num x) (Num y) (Num p) (Num l) (Num s)) [0..<Suc n]
                (Num 0, Num 1, Num 1, Num 0)
              = (Num (v + q * a), Num (a * p), Num (f * l), Num (m + a))"
    by (simp add: st octave_step_def perlinNoise_Num q_def)
  have "0 \<le> v + q * a"
    using v a q by simp
  moreover have "0 \<le> a * p"
    using a assms by simp
  moreover have "v + q * a < m + a"
  proof (cases "n = 0")
    case True
    then show ?thesis using c q by simp
  next
    case False
    then have "v < m" using c by simp
    moreover have "q * a \<le> a"
      using q a by (simp add: mult_left_le_one_le)
    ultimately show ?thesis by linarith
  qed
  ultimately show ?case
    unfolding step by simp
qed

lemma improvedPerlinNoise_finite:
  assumes "0 \<le> p" and "1 \<le> n"
  shows "\<exists>r. improvedPerlinNoise (Num x) (Num y) n (Num p) (Num l) (Num s) = Num r
              \<and> 0 \<le> r \<and> r < 1"
proof -
  obtain v a f m where
    st: "fold (octave_step (Num x) (Num y) (Num p) (Num l) (Num s)) [0..<n]
           (Num 0, Num 1, Num 1, Num 0) = (Num v, Num a, Num f, Num m)"
    and v: "0 \<le> v" and c: "if n = 0 then v = 0 \<and> m = 0 \<and> a = 1 else v < m"
    using octave_loop_invariant[OF assms(1), of x y l s n] by blast
  have vm: "v < m" using c assms(2) by simp
  then have m: "0 < m" using v by linarith
  have "improvedPerlinNoise (Num x) (Num y) n (Num p) (Num l) (Num s) = Num (v / m)"
    using m by (simp add: improvedPerlinNoise_def st)
  moreover have "0 \<le> v / m" using v m by simp
  moreover have "v / m < 1" using vm m by simp
  ultimately show ?thesis by blast
qed

text \<open>
  A noise argument that is not finite makes the sine, and with it the noise value, \<open>NaN\<close>.
  So the noise value of a vertex is a finite number only if its two arguments are, and then
  it is in the unit interval. A pass whose seed is \<open>NaN\<close> accepts no candidate.
\<close>

lemma NaN_absorbs [simp]:
  "NaN + v = NaN" "v + NaN = NaN" "NaN * v = NaN" "v * NaN = NaN" "NaN / v = NaN"
  by (cases v; simp)+

lemma perlinNoise_not_finite:
  assumes "\<forall>r. a \<noteq> Num r"
  shows "perlinNoise (a * Num f) (b * Num g) (Num s) = NaN"
    and "perlinNoise (b * Num g) (a * Num f) (Num s) = NaN"
  using assms
  by (cases a; cases b; simp add: perlinNoise_def Let_def minus_jsnum_def)+

lemma vertex_noise_not_finite:
  assumes "(\<forall>r. a \<noteq> Num r) \<or> (\<forall>r. b \<noteq> Num r)"
  shows "improvedPerlinNoise a b 4 (Num 0.5) (Num 2) (Num 42) = NaN"
proof -
  have "perlinNoise (a * Num 1) (b * Num 1) (Num 42 + Num (real 0)) = NaN"
    using assms perlinNoise_not_finite[where a = a and b = b and f = 1 and g = 1 and s = "42 + real 0"]
      perlinNoise_not_finite[where a = b and b = a and f = 1 and g = 1 and s = "42 + real 0"]
    by auto
  then show ?thesis
    by (simp add: improvedPerlinNoise_def octave_step_def eval_nat_numeral)
qed

lemma vertex_noise_unit:
  assumes "improvedPerlinNoise a b 4 (Num 0.5) (Num 2) (Num 42) = Num r"
  shows "0 \<le> r \<and> r < 1"
proof -
  obtain x y where "a = Num x" "b = Num y"
    using assms vertex_noise_not_finite[of a b] by (cases a; cases b; simp)
  then show ?thesis
    using improvedPerlinNoise_finite[of "5 / 10" 4 x y 2 42] assms by auto
qed

lemma noise_seed_NaN: "improvedPerlinNoise x z 3 p l NaN = NaN"
  by (simp add: improvedPerlinNoise_def octave_step_def perlinNoise_def Let_def minus_jsnum_def
        eval_nat_numeral)

section \<open>Noise values at chosen candidates\<close>

text \<open>
  Enclosures of \<open>sin 1\<close>, \<open>sin 2\<close> and \<open>sin 3\<close>, scaled by the constant of
  \<open>perlinNoise\<close>, from the Maclaurin polynomials of the sine and their error bound.
\<close>

lemma sin_1_enclosure:
  "36821.5 < sin (1::real) * 43758.5453 \<and> sin (1::real) * 43758.5453 < 36821.55"
proof -
  have A: "(\<Sum>m<11. sin_coeff m * (1::real) ^ m) = 305353 / 362880"
    by (simp add: sin_coeff_def lessThan_nat_numeral lessThan_Suc fact_numeral)
  have B: "inverse (fact 11) * \<bar>1::real\<bar> ^ 11 = 1 / 39916800"
    by (simp add: fact_numeral)
  have "\<bar>sin (1::real) - 305353 / 362880\<bar> \<le> 1 / 39916800"
    using Maclaurin_sin_bound[of "1::real" 11] unfolding A B .
  then have "305353 / 362880 - 1 / 39916800 \<le> sin (1::real)"
    and "sin (1::real) \<le> 305353 / 362880 + 1 / 39916800"
    by linarith+
  then show ?thesis by simp
qed

lemma sin_2_enclosure:
  "39789.5 < sin (2::real) * 43758.5453 \<and> sin (2::real) * 43758.5453 < 39789.54"
proof -
  have A: "(\<Sum>m<17. sin_coeff m * (2::real) ^ m) = 580598114 / 638512875"
    by (simp add: sin_coeff_def lessThan_nat_numeral lessThan_Suc fact_numeral)
  have B: "inverse (fact 17) * \<bar>2::real\<bar> ^ 17 = 4 / 10854718875"
    by (simp add: fact_numeral)
  have "\<bar>sin (2::real) - 580598114 / 638512875\<bar> \<le> 4 / 10854718875"
    using Maclaurin_sin_bound[of "2::real" 17] unfolding A B .
  then have "580598114 / 638512875 - 4 / 10854718875 \<le> sin (2::real)"
    and "sin (2::real) \<le> 580598114 / 638512875 + 4 / 10854718875"
    by linarith+
  then show ?thesis by simp
qed

lemma sin_3_enclosure:
  "6175.2 < sin (3::real) * 43758.5453 \<and> sin (3::real) * 43758.5453 < 6175.21"
proof -
  have A: "(\<Sum>m<21. sin_coeff m * (3::real) ^ m) = 2613840591 / 18522112000"
    by (simp add: sin_coeff_def lessThan_nat_numeral lessThan_Suc fact_numeral)
  have B: "inverse (fact 21) * \<bar>3::real\<bar> ^ 21 = 531441 / 2595688775680000"
    by (simp add: fact_numeral)
  have "\<bar>sin (3::real) - 2613840591 / 18522112000\<bar> \<le> 531441 / 2595688775680000"
    using Maclaurin_sin_bound[of "3::real" 21] unfolding A B .
  then have "2613840591 / 18522112000 - 531441 / 2595688775680000 \<le> sin (3::real)"
    and "sin (3::real) \<le> 2613840591 / 18522112000 + 531441 / 2595688775680000"
    by linarith+
  then show ?thesis by simp
qed

lemma frac_neg_enclosure:
  assumes "real_of_int k + lo < v" and "v < real_of_int k + hi" and "0 \<le> lo" and "hi \<le> 1"
  shows "1 - hi < frac (- v) \<and> frac (- v) < 1 - lo"
proof -
  have "\<lfloor>- v\<rfloor> = - k - 1"
    using assms by (simp add: floor_eq_iff)
  then have "frac (- v) = - v + real_of_int k + 1"
    by (simp add: frac_def)
  then show ?thesis using assms by simp
qed

text \<open>
  The noise value of the placement pass at the candidate \<open>(0, 0)\<close> with seed \<open>-3\<close>: the
  three octaves are the fractional parts of \<open>-sin 3\<close>, \<open>-sin 2\<close> and \<open>-sin 1\<close> times the
  constant, about 0.79, 0.47 and 0.45, and their weighted mean is about 0.65.
\<close>

lemma noise_origin_seed_minus_3:
  "Num 0.6 < improvedPerlinNoise (Num 0) (Num 0) 3 (Num 0.5) (Num 2) (Num (- 3))"
proof -
  define q0 where "q0 = frac (- (sin (3::real) * 43758.5453))"
  define q1 where "q1 = frac (- (sin (2::real) * 43758.5453))"
  define q2 where "q2 = frac (- (sin (1::real) * 43758.5453))"
  have e: "improvedPerlinNoise (Num 0) (Num 0) 3 (Num 0.5) (Num 2) (Num (- 3))
        = Num ((q0 + q1 * 0.5 + q2 * 0.25) / 1.75)"
    by (simp add: improvedPerlinNoise_def octave_step_def numeral_3_eq_3 perlinNoise_Num
          q0_def q1_def q2_def)
  have "0.79 < q0"
    using frac_neg_enclosure[of 6175 "0.2" "sin (3::real) * 43758.5453" "0.21"] sin_3_enclosure
    by (simp add: q0_def)
  moreover have "0.46 < q1"
    using frac_neg_enclosure[of 39789 "0.5" "sin (2::real) * 43758.5453" "0.54"] sin_2_enclosure
    by (simp add: q1_def)
  moreover have "0.45 < q2"
    using frac_neg_enclosure[of 36821 "0.5" "sin (1::real) * 43758.5453" "0.55"] sin_1_enclosure
    by (simp add: q2_def)
  ultimately have "0.6 < (q0 + q1 * 0.5 + q2 * 0.25) / 1.75"
    by simp
  then show ?thesis unfolding e by simp
qed

text \<open>
  An enclosure of \<open>\<pi>\<close> from the sign of the sine on either side of it, and the sine as a
  function that changes no faster than its argument. With them the sine of an argument of
  several periods is enclosed by the Maclaurin polynomial at a rational point near the
  reduced argument.
\<close>

lemma sin_lower_pi: "0 < sin (3.14159265::real)"
proof -
  have A: "3 / 10 ^ 9 < (\<Sum>m<25. sin_coeff m * (3.14159265::real) ^ m)"
    by (simp add: sin_coeff_def lessThan_nat_numeral lessThan_Suc fact_numeral power_divide)
  have B: "inverse (fact 25) * \<bar>3.14159265::real\<bar> ^ 25 < 1 / 10 ^ 9"
    by (simp add: fact_numeral power_divide)
  show ?thesis
    using Maclaurin_sin_bound[of "3.14159265::real" 25] A B by linarith
qed

lemma sin_upper_pi: "sin (3.14159266::real) < 0"
proof -
  have A: "(\<Sum>m<25. sin_coeff m * (3.14159266::real) ^ m) < - 6 / 10 ^ 9"
    by (simp add: sin_coeff_def lessThan_nat_numeral lessThan_Suc fact_numeral power_divide)
  have B: "inverse (fact 25) * \<bar>3.14159266::real\<bar> ^ 25 < 1 / 10 ^ 9"
    by (simp add: fact_numeral power_divide)
  show ?thesis
    using Maclaurin_sin_bound[of "3.14159266::real" 25] A B by linarith
qed

lemma pi_enclosure: "3.14159265 < pi \<and> pi < 3.14159266"
proof
  show "3.14159265 < pi"
  proof (rule ccontr)
    assume "\<not> 3.14159265 < pi"
    then have "pi = 3.14159265 \<or> (pi < 3.14159265 \<and> 3.14159265 < 2 * pi)"
      using pi_ge_two by auto
    then show False
    proof
      assume "pi = 3.14159265"
      then have "sin (3.14159265::real) = 0" using sin_pi by metis
      with sin_lower_pi show False by simp
    next
      assume "pi < 3.14159265 \<and> 3.14159265 < 2 * pi"
      then have "sin (3.14159265::real) < 0" by (simp add: sin_lt_zero)
      with sin_lower_pi show False by simp
    qed
  qed
  show "pi < 3.14159266"
  proof (rule ccontr)
    assume "\<not> pi < 3.14159266"
    then have "pi = 3.14159266 \<or> 3.14159266 < pi" by auto
    then show False
    proof
      assume "pi = 3.14159266"
      then have "sin (3.14159266::real) = 0" using sin_pi by metis
      with sin_upper_pi show False by simp
    next
      assume "3.14159266 < pi"
      then have "0 < sin (3.14159266::real)" by (simp add: sin_gt_zero)
      with sin_upper_pi show False by simp
    qed
  qed
qed

lemma sin_lipschitz: "\<bar>sin a - sin b\<bar> \<le> \<bar>a - b\<bar>" for a b :: real
proof -
  have "\<bar>sin a - sin b\<bar> = 2 * \<bar>sin ((a - b) / 2)\<bar> * \<bar>cos ((a + b) / 2)\<bar>"
    by (simp add: sin_diff_sin abs_mult)
  also have "\<dots> \<le> 2 * \<bar>sin ((a - b) / 2)\<bar> * 1"
    by (intro mult_left_mono) (simp_all add: abs_le_iff)
  also have "\<dots> \<le> 2 * \<bar>(a - b) / 2\<bar>"
    using abs_sin_x_le_abs_x[of "(a - b) / 2"] by simp
  also have "\<dots> = \<bar>a - b\<bar>" by simp
  finally show ?thesis .
qed

lemma sin_shift_enclosure:
  fixes a y0 :: real
  assumes "\<bar>a - 2 * real k * pi - y0\<bar> \<le> d"
    and "\<bar>sin y0 - s\<bar> \<le> e"
  shows "s - e - d \<le> sin a \<and> sin a \<le> s + e + d"
proof -
  have "sin a = sin ((a - 2 * real k * pi) + 2 * real k * pi)"
    by simp
  also have "\<dots> = sin (a - 2 * real k * pi)"
    unfolding sin_add sin_2npi cos_2npi by simp
  finally have "sin a = sin (a - 2 * real k * pi)" .
  moreover have "\<bar>sin (a - 2 * real k * pi) - sin y0\<bar> \<le> d"
    using sin_lipschitz[of "a - 2 * real k * pi" y0] assms(1) by linarith
  ultimately show ?thesis using assms(2) by linarith
qed

text \<open>
  The noise value of the placement pass at the candidate \<open>(0, -2)\<close> with the seed 123 of
  \<open>generate\<close>: the first two octaves are the fractional parts of \<open>sin 91.7068\<close> and
  \<open>sin 61.4136\<close> times the constant, about 0.93 and 0.59, so that the weighted mean of the
  three octaves is above 0.65 whatever the third.
\<close>

lemma sin_octave_0:
  "- 24730.1 < sin (91.7068::real) * 43758.5453 \<and> sin (91.7068::real) * 43758.5453 < - 24730"
proof -
  define y0 :: real where "y0 = - 2.5409796"
  define s :: real where "s = (\<Sum>m<21. sin_coeff m * y0 ^ m)"
  define e :: real where "e = inverse (fact 21) * \<bar>y0\<bar> ^ 21"
  have m: "\<bar>sin y0 - s\<bar> \<le> e"
    unfolding s_def e_def by (rule Maclaurin_sin_bound)
  have "91.7068 - 2 * real 15 * pi - y0 \<le> 2 / 10 ^ 7"
    and "- (2 / 10 ^ 7) \<le> 91.7068 - 2 * real 15 * pi - y0"
    using pi_enclosure by (simp_all add: y0_def)
  then have d: "\<bar>91.7068 - 2 * real 15 * pi - y0\<bar> \<le> 2 / 10 ^ 7"
    by (rule abs_leI[OF _ iffD1[OF minus_le_iff]])
  have s: "- 0.56514835 < s" "s < - 0.56514834"
    unfolding s_def y0_def
    by (simp_all add: sin_coeff_def lessThan_nat_numeral lessThan_Suc fact_numeral power_divide)
  have e: "e < 1 / 10 ^ 10"
    unfolding e_def y0_def by (simp add: fact_numeral power_divide)
  have "- 0.5651486 < sin (91.7068::real) \<and> sin (91.7068::real) < - 0.5651481"
    using sin_shift_enclosure[OF d m] s e by simp
  then show ?thesis by simp
qed

lemma sin_octave_1:
  "- 43250.43 < sin (61.4136::real) * 43758.5453 \<and> sin (61.4136::real) * 43758.5453 < - 43250.4"
proof -
  define y0 :: real where "y0 = - 1.4182531"
  define s :: real where "s = (\<Sum>m<19. sin_coeff m * y0 ^ m)"
  define e :: real where "e = inverse (fact 19) * \<bar>y0\<bar> ^ 19"
  have m: "\<bar>sin y0 - s\<bar> \<le> e"
    unfolding s_def e_def by (rule Maclaurin_sin_bound)
  have "61.4136 - 2 * real 10 * pi - y0 \<le> 1 / 10 ^ 7"
    and "- (1 / 10 ^ 7) \<le> 61.4136 - 2 * real 10 * pi - y0"
    using pi_enclosure by (simp_all add: y0_def)
  then have d: "\<bar>61.4136 - 2 * real 10 * pi - y0\<bar> \<le> 1 / 10 ^ 7"
    by (rule abs_leI[OF _ iffD1[OF minus_le_iff]])
  have s: "- 0.98838783 < s" "s < - 0.98838782"
    unfolding s_def y0_def
    by (simp_all add: sin_coeff_def lessThan_nat_numeral lessThan_Suc fact_numeral power_divide)
  have e: "e < 1 / 10 ^ 10"
    unfolding e_def y0_def by (simp add: fact_numeral power_divide)
  have "- 0.988388 < sin (61.4136::real) \<and> sin (61.4136::real) < - 0.9883877"
    using sin_shift_enclosure[OF d m] s e by simp
  then show ?thesis by simp
qed

lemma noise_seed_123:
  "Num 0.6 < improvedPerlinNoise (Num 0 / Num 5) (Num (- 2) / Num 5) 3 (Num 0.5) (Num 2) (Num 123)"
proof -
  define q0 where "q0 = frac (sin (91.7068::real) * 43758.5453)"
  define q1 where "q1 = frac (sin (61.4136::real) * 43758.5453)"
  define q2 where "q2 = frac (sin (- 0.1728::real) * 43758.5453)"
  have a: "0 * 12.9898 + - 2 / 5 * 78.233 + 123 = (91.7068::real)"
    "0 * 2 * 12.9898 + - 2 / 5 * 2 * 78.233 + (123 + 1) = (61.4136::real)"
    "0 * 2 * 2 * 12.9898 + - 2 / 5 * 2 * 2 * 78.233 + (123 + 1 + 1) = (- 0.1728::real)"
    by simp_all
  have e: "improvedPerlinNoise (Num 0 / Num 5) (Num (- 2) / Num 5) 3 (Num 0.5) (Num 2) (Num 123)
        = Num ((q0 + q1 * 0.5 + q2 * 0.25) / 1.75)"
    using a
    by (simp add: improvedPerlinNoise_def octave_step_def numeral_3_eq_3 perlinNoise_Num
          q0_def q1_def q2_def)
  have f: "frac v = v - real_of_int k" if "real_of_int k \<le> v" "v < real_of_int k + 1" for v k
    using that by (simp add: frac_def floor_unique)
  have "0.9 < q0"
    using f[of "- 24731" "sin (91.7068::real) * 43758.5453"] sin_octave_0
    by (simp add: q0_def)
  moreover have "0.5 < q1"
    using f[of "- 43251" "sin (61.4136::real) * 43758.5453"] sin_octave_1
    by (simp add: q1_def)
  moreover have "0 \<le> q2"
    by (simp add: q2_def)
  ultimately have "0.6 < (q0 + q1 * 0.5 + q2 * 0.25) / 1.75"
    by simp
  then show ?thesis unfolding e by simp
qed

section \<open>Camera reset\<close>

text \<open>
  Claim C9. After \<open>reset\<close>, from any state and with or without a target, the distance is
  50, the pitch 45, the yaw 0 and no key is held; without a target argument the focus
  point is the one before the call.
\<close>

theorem reset_canonical_pose:
  "distance (reset this t) = Num 50 \<and> pitch (reset this t) = Num 45
   \<and> yaw (reset this t) = Num 0 \<and> keysPressed (reset this t) = {}
   \<and> target (reset this None) = target this"
  by (simp add: reset_def updateCameraPosition_def Let_def split: option.split)


section \<open>The height field\<close>

lemma displace_length: "length (displace store cfg buf) = length buf"
  by (induction store cfg buf rule: displace.induct) simp_all

lemma displace_vertex:
  assumes "3 * k + 2 < length buf"
  shows "displace store cfg buf ! (3 * k) = buf ! (3 * k)
       \<and> displace store cfg buf ! (3 * k + 1) = buf ! (3 * k + 1)
       \<and> displace store cfg buf ! (3 * k + 2) =
           store (improvedPerlinNoise (buf ! (3 * k) / scale cfg) (buf ! (3 * k + 1) / scale cfg)
             4 (Num 0.5) (Num 2) (Num 42) * maxHeight cfg)"
  using assms
proof (induction store cfg buf arbitrary: k rule: displace.induct)
  case (1 store config x y z0 rest)
  show ?case
  proof (cases k)
    case 0
    then show ?thesis by simp
  next
    case (Suc j)
    have i: "3 * k = Suc (Suc (Suc (3 * j)))" using Suc by simp
    have "3 * j + 2 < length rest" using 1(2) Suc by simp
    from 1(1)[OF this] show ?thesis
      unfolding i by simp
  qed
qed simp_all

text \<open>
  Claim C3, as the code has it. Vertex \<open>k\<close> of the plane keeps its planar coordinates
  \<open>(vx, vy)\<close>, and its elevation is what the position buffer keeps of
  \<open>improvedPerlinNoise(vx / scale, vy / scale, 4, 0.5, 2.0, 42) * maxHeight\<close>. When that
  noise value is a finite number and \<open>maxHeight\<close> is finite and not negative, the elevation
  lies between what the buffer keeps of 0 and what it keeps of \<open>maxHeight\<close>, both ends
  included, for a buffer that keeps the order of the numbers written to it; and for
  \<open>maxHeight = 0\<close> it is 0, for a buffer that keeps 0 as 0.
\<close>

theorem createTerrain_vertex_elevation:
  assumes "3 * k + 2 < length (PlaneGeometry lib (width cfg) (height cfg)
                                  (widthSegments cfg) (heightSegments cfg))"
  shows "let buf = PlaneGeometry lib (width cfg) (height cfg)
                     (widthSegments cfg) (heightSegments cfg);
             out = positions (createTerrain lib cfg);
             vx = buf ! (3 * k); vy = buf ! (3 * k + 1); elevation = out ! (3 * k + 2);
             noise = improvedPerlinNoise (vx / scale cfg) (vy / scale cfg)
                       4 (Num 0.5) (Num 2) (Num 42)
         in length out = length buf \<and> out ! (3 * k) = vx \<and> out ! (3 * k + 1) = vy
          \<and> elevation = storePosition lib (noise * maxHeight cfg)
          \<and> (\<forall>r m. noise = Num r \<and> maxHeight cfg = Num m \<and> 0 \<le> m
                 \<and> (\<forall>a b. a \<le> b \<longrightarrow> storePosition lib a \<le> storePosition lib b) \<longrightarrow>
                 storePosition lib (Num 0) \<le> elevation
                 \<and> elevation \<le> storePosition lib (Num m))
          \<and> (\<forall>r. noise = Num r \<and> maxHeight cfg = Num 0
                 \<and> storePosition lib (Num 0) = Num 0 \<longrightarrow>
                 elevation = Num 0)"
proof -
  let ?buf = "PlaneGeometry lib (width cfg) (height cfg) (widthSegments cfg) (heightSegments cfg)"
  let ?noise = "improvedPerlinNoise (?buf ! (3 * k) / scale cfg) (?buf ! (3 * k + 1) / scale cfg)
                  4 (Num 0.5) (Num 2) (Num 42)"
  have p: "positions (createTerrain lib cfg) = displace (storePosition lib) cfg ?buf"
    by (simp add: createTerrain_def)
  note v = displace_vertex[OF assms, of "storePosition lib" cfg]
  have r: "storePosition lib (Num 0) \<le> storePosition lib (?noise * maxHeight cfg)
         \<and> storePosition lib (?noise * maxHeight cfg) \<le> storePosition lib (Num m)"
    if h: "?noise = Num r" "maxHeight cfg = Num m" "0 \<le> m"
      and mono: "\<forall>a b. a \<le> b \<longrightarrow> storePosition lib a \<le> storePosition lib b" for r m
  proof -
    have u: "0 \<le> r" "r < 1" using vertex_noise_unit[OF h(1)] by simp_all
    have "r * m \<le> 1 * m" using u h(3) by (intro mult_right_mono) simp_all
    moreover have "0 \<le> r * m" using u h(3) by simp
    ultimately have "Num 0 \<le> ?noise * maxHeight cfg" "?noise * maxHeight cfg \<le> Num m"
      unfolding h(1,2) by simp_all
    then show ?thesis using mono by blast
  qed
  have z: "storePosition lib (?noise * maxHeight cfg) = Num 0"
    if h: "?noise = Num r" "maxHeight cfg = Num 0" and s: "storePosition lib (Num 0) = Num 0" for r
    unfolding h using s by simp
  show ?thesis
    unfolding Let_def p using v r z by (simp add: displace_length)
qed

lemma one_segment_plane_buffer:
  "PlaneGeometry one_segment_plane (Num 100) (Num 100) ws hs
   = [Num (- 50), Num 50, Num 0, Num 50, Num 50, Num 0,
      Num (- 50), Num (- 50), Num 0, Num 50, Num (- 50), Num 0]"
  "PlaneGeometry one_segment_plane (Num 4) (Num 4) ws hs
   = [Num (- 2), Num 2, Num 0, Num 2, Num 2, Num 0,
      Num (- 2), Num (- 2), Num 0, Num 2, Num (- 2), Num 0]"
  "storePosition one_segment_plane v = v"
  by (simp_all add: one_segment_plane_def)

lemma flat_config_fields:
  "width flat_config = Num 100" "height flat_config = Num 100"
  "scale flat_config = Num 15" "maxHeight flat_config = Num 0"
  by (simp_all add: flat_config_def)

lemma small_config_fields:
  "width small_config = Num 4" "height small_config = Num 4"
  "scale small_config = Num 15" "maxHeight small_config = Num 0"
  by (simp_all add: small_config_def)

theorem createTerrain_vertex_elevation_witness:
  "3 * 0 + 2 < length (PlaneGeometry one_segment_plane (width flat_config) (height flat_config)
                         (widthSegments flat_config) (heightSegments flat_config))
   \<and> positions (createTerrain one_segment_plane flat_config) ! 2 = Num 0
   \<and> Num 0 \<le> positions (createTerrain one_segment_plane (flat_config\<lparr>maxHeight := Num 15\<rparr>)) ! 2
   \<and> positions (createTerrain one_segment_plane (flat_config\<lparr>maxHeight := Num 15\<rparr>)) ! 2 \<le> Num 15"
proof -
  have l: "3 * 0 + 2 < length (PlaneGeometry one_segment_plane (width flat_config)
                         (height flat_config) (widthSegments flat_config)
                         (heightSegments flat_config))"
    by (simp add: one_segment_plane_buffer flat_config_fields)
  obtain r where
    r: "improvedPerlinNoise (Num (- 50) / Num 15) (Num 50 / Num 15) 4 (Num 0.5) (Num 2) (Num 42)
          = Num r"
    using improvedPerlinNoise_finite[of "5 / 10" 4 "- 50 / 15" "50 / 15" 2 42] by auto
  have a: "positions (createTerrain one_segment_plane flat_config) ! 2 = Num 0"
    using createTerrain_vertex_elevation[OF l] r
    by (auto simp add: Let_def one_segment_plane_buffer flat_config_fields numeral_2_eq_2)
  have b: "Num 0 \<le> positions (createTerrain one_segment_plane (flat_config\<lparr>maxHeight := Num 15\<rparr>)) ! 2
         \<and> positions (createTerrain one_segment_plane (flat_config\<lparr>maxHeight := Num 15\<rparr>)) ! 2 \<le> Num 15"
    using createTerrain_vertex_elevation
            [of 0 one_segment_plane "flat_config\<lparr>maxHeight := Num 15\<rparr>"] r
    by (auto simp add: Let_def one_segment_plane_buffer flat_config_fields numeral_2_eq_2)
  show ?thesis using l a b by simp
qed

text \<open>
  The claim's range \<open>[0, maxHeight)\<close> is empty for \<open>maxHeight = 0\<close>, where the elevation
  is 0; and for a scale of 0 the noise arguments are not finite, so that the elevation is
  \<open>NaN\<close> also when \<open>maxHeight\<close> is 0. Both at the first vertex of a plane of 100 by 100
  with one segment per axis.
\<close>

theorem createTerrain_elevation_counterexample:
  "maxHeight flat_config = Num 0
   \<and> positions (createTerrain one_segment_plane flat_config) ! 2 = Num 0
   \<and> \<not> (Num 0 \<le> positions (createTerrain one_segment_plane flat_config) ! 2
        \<and> positions (createTerrain one_segment_plane flat_config) ! 2 < maxHeight flat_config)
   \<and> maxHeight (flat_config\<lparr>scale := Num 0\<rparr>) = Num 0
   \<and> positions (createTerrain one_segment_plane (flat_config\<lparr>scale := Num 0\<rparr>)) ! 2 = NaN"
proof -
  obtain r where
    "improvedPerlinNoise (Num (- 50) / Num 15) (Num 50 / Num 15) 4 (Num 0.5) (Num 2) (Num 42)
       = Num r"
    using improvedPerlinNoise_finite[of "5 / 10" 4 "- 50 / 15" "50 / 15" 2 42] by auto
  then have a: "positions (createTerrain one_segment_plane flat_config) ! 2 = Num 0"
    by (simp add: createTerrain_def one_segment_plane_buffer flat_config_fields)
  have "improvedPerlinNoise (Num (- 50) / Num 0) (Num 50 / Num 0) 4 (Num 0.5) (Num 2) (Num 42)
          = NaN"
    by (rule vertex_noise_not_finite) simp
  then have b:
    "positions (createTerrain one_segment_plane (flat_config\<lparr>scale := Num 0\<rparr>)) ! 2 = NaN"
    by (simp add: createTerrain_def one_segment_plane_buffer flat_config_fields)
  show ?thesis using a b by (simp add: flat_config_fields)
qed


section \<open>The loops of the placement pass\<close>

text \<open>
  A loop that makes \<open>n\<close> rounds, with a body that always returns, folds the body over the
  \<open>n\<close> values of its variable; a loop that returns makes some number of rounds, and only
  one.
\<close>

lemma for_loop_rounds:
  assumes "loop_rounds n limit step v" and b: "\<And>w a. body w a = Some (f w a)"
  shows "for_loop limit step body v acc = Some (fold f (loop_values n v step) acc)"
  using assms(1)
proof (induction n arbitrary: v acc)
  case 0
  then show ?case by (subst for_loop.simps) simp
next
  case (Suc n)
  then have l: "v < limit" and r: "loop_rounds n limit step (v + step)" by simp_all
  show ?case
    by (subst for_loop.simps) (simp add: l b Suc.IH[OF r])
qed

lemma for_loop_returns_rounds:
  assumes "for_loop limit step body v acc = Some r"
  shows "\<exists>n. loop_rounds n limit step v"
  using assms
proof (induction limit step body v acc r rule: for_loop.raw_induct[rotated 1, consumes 1])
  case (1 loop limit step body v acc r)
  show ?case
  proof (cases "v < limit")
    case True
    with 1(2) obtain a' where "loop limit step body (v + step) a' = Some r"
      by (auto simp: bind_eq_Some_conv)
    from 1(1)[OF this] obtain n where "loop_rounds n limit step (v + step)" by blast
    with True have "loop_rounds (Suc n) limit step v" by simp
    then show ?thesis by blast
  next
    case False
    then have "loop_rounds 0 limit step v" by simp
    then show ?thesis by blast
  qed
qed

lemma loop_rounds_unique:
  "loop_rounds n limit step v \<Longrightarrow> loop_rounds m limit step v \<Longrightarrow> n = m"
proof (induction n arbitrary: m v)
  case 0
  then show ?case by (cases m) simp_all
next
  case (Suc n)
  then show ?case by (cases m) auto
qed

lemma loop_values_below:
  "loop_rounds n limit step v \<Longrightarrow> x \<in> set (loop_values n v step) \<Longrightarrow> x < limit"
  by (induction n arbitrary: v) auto

lemma length_loop_values [simp]: "length (loop_values n v step) = n"
  by (induction n arbitrary: v) simp_all

lemma for_loop_never:
  assumes "\<And>n. \<not> loop_rounds n limit step v"
  shows "for_loop limit step body v acc = None"
proof (cases "for_loop limit step body v acc")
  case None
  then show ?thesis .
next
  case (Some r)
  from for_loop_returns_rounds[OF Some] assms show ?thesis by blast
qed

lemma fold_append_concat: "fold (\<lambda>v acc. acc @ h v) xs acc = acc @ concat (map h xs)"
  by (induction xs arbitrary: acc) simp_all

lemma placement_body:
  "(let noise = improvedPerlinNoise (x / Num 5) (z / Num 5) 3 (Num 0.5) (Num 2) seed in
     if Num 0.6 < noise
     then (let intersects = intersectObject lib surface (Vector3 x (Num 100) z)
                              (Vector3 (Num 0) (Num (- 1)) (Num 0)) in
           if 0 < length intersects
           then Some (ps @ [Vector3 x (vec_y (point (intersects ! 0)) + Num 0.5) z])
           else Some ps)
     else Some ps)
   = Some (ps @ spec_anchor lib surface seed x z)"
  by (simp add: spec_anchor_def Let_def split: list.split)

text \<open>
  The two loops of the pass have the same header, so they make the same number of rounds
  over the same values. If that number is \<open>n\<close>, the pass returns the anchors of the grid over
  these values; if there is no such number, the pass does not return. The same for the
  candidates visited.
\<close>

lemma generateTreePositions_rounds:
  assumes "loop_rounds n (gridSize / Num 2) (Num 1 / (density * Num 10)) (- gridSize / Num 2)"
  shows "generateTreePositions lib surface gridSize density seed =
     Some (spec_anchors lib surface seed
             (loop_values n (- gridSize / Num 2) (Num 1 / (density * Num 10))))"
proof -
  let ?axis = "loop_values n (- gridSize / Num 2) (Num 1 / (density * Num 10))"
  show ?thesis
    unfolding generateTreePositions_def placement_body
    apply (simp only: Let_def)
    apply (subst for_loop_rounds
             [OF assms, where f = "\<lambda>x acc. acc @ concat (map (\<lambda>z. spec_anchor lib surface seed x z)
                                                        ?axis)"])
    subgoal for w a
      apply (subst for_loop_rounds
               [OF assms, where f = "\<lambda>z acc. acc @ spec_anchor lib surface seed w z"])
      subgoal by (rule refl)
      by (simp add: fold_append_concat)
    by (simp add: fold_append_concat spec_anchors_def)
qed

lemma scannedCandidates_rounds:
  assumes "loop_rounds n (gridSize / Num 2) (Num 1 / (density * Num 10)) (- gridSize / Num 2)"
  shows "scannedCandidates gridSize density =
     Some (spec_candidates (loop_values n (- gridSize / Num 2) (Num 1 / (density * Num 10))))"
proof -
  let ?axis = "loop_values n (- gridSize / Num 2) (Num 1 / (density * Num 10))"
  have c: "concat (map (\<lambda>z. [(x, z)]) zs) = map (\<lambda>z. (x, z)) zs" for x :: jsnum and zs :: "jsnum list"
    by (induction zs) simp_all
  show ?thesis
    unfolding scannedCandidates_def
    apply (simp only: Let_def)
    apply (subst for_loop_rounds
             [OF assms, where f = "\<lambda>x acc. acc @ map (\<lambda>z. (x, z)) ?axis"])
    subgoal for w a
      apply (subst for_loop_rounds[OF assms, where f = "\<lambda>z acc. acc @ [(w, z)]"])
      subgoal by (rule refl)
      by (simp add: fold_append_concat c)
    by (simp add: fold_append_concat spec_candidates_def)
qed

lemma generateTreePositions_returns_rounds:
  assumes "generateTreePositions lib surface gridSize density seed = Some ps"
  shows "\<exists>n. loop_rounds n (gridSize / Num 2) (Num 1 / (density * Num 10)) (- gridSize / Num 2)"
  using assms unfolding generateTreePositions_def Let_def by (rule for_loop_returns_rounds)

lemma scannedCandidates_returns_rounds:
  assumes "scannedCandidates gridSize density = Some cs"
  shows "\<exists>n. loop_rounds n (gridSize / Num 2) (Num 1 / (density * Num 10)) (- gridSize / Num 2)"
  using assms unfolding scannedCandidates_def Let_def by (rule for_loop_returns_rounds)

lemma generateTreePositions_never:
  assumes "\<And>n. \<not> loop_rounds n (gridSize / Num 2) (Num 1 / (density * Num 10)) (- gridSize / Num 2)"
  shows "generateTreePositions lib surface gridSize density seed = None"
  unfolding generateTreePositions_def Let_def using assms by (rule for_loop_never)

lemma scannedCandidates_never:
  assumes "\<And>n. \<not> loop_rounds n (gridSize / Num 2) (Num 1 / (density * Num 10)) (- gridSize / Num 2)"
  shows "scannedCandidates gridSize density = None"
  unfolding scannedCandidates_def Let_def using assms by (rule for_loop_never)

lemma anchors_of_candidates:
  "spec_anchors lib surface seed axis =
     concat (map (\<lambda>(x, z). spec_anchor lib surface seed x z) (spec_candidates axis))"
proof -
  have "concat (map (\<lambda>x. concat (map (\<lambda>z. f x z) zs)) xs) =
        concat (map (\<lambda>(x, z). f x z) (concat (map (\<lambda>x. map (\<lambda>z. (x, z)) zs) xs)))"
    for f :: "jsnum \<Rightarrow> jsnum \<Rightarrow> vector3 list" and xs zs
    by (induction xs) (simp_all add: comp_def)
  then show ?thesis
    unfolding spec_anchors_def spec_candidates_def by blast
qed

lemma generateTreePositions_scanned:
  "generateTreePositions lib surface gridSize density seed =
     map_option (\<lambda>cs. concat (map (\<lambda>(x, z). spec_anchor lib surface seed x z) cs))
       (scannedCandidates gridSize density)"
proof (cases "\<exists>n. loop_rounds n (gridSize / Num 2) (Num 1 / (density * Num 10)) (- gridSize / Num 2)")
  case True
  then obtain n where
    n: "loop_rounds n (gridSize / Num 2) (Num 1 / (density * Num 10)) (- gridSize / Num 2)"
    by blast
  show ?thesis
    by (simp add: generateTreePositions_rounds[OF n] scannedCandidates_rounds[OF n]
          anchors_of_candidates)
next
  case False
  then have "\<And>n. \<not> loop_rounds n (gridSize / Num 2) (Num 1 / (density * Num 10)) (- gridSize / Num 2)"
    by blast
  then show ?thesis
    by (simp add: generateTreePositions_never scannedCandidates_never)
qed

lemma length_spec_candidates [simp]: "length (spec_candidates axis) = length axis * length axis"
proof -
  have "length (concat (map (\<lambda>x. map (\<lambda>z. (x, z)) zs) xs)) = length xs * length zs"
    for xs zs :: "jsnum list"
    by (induction xs) simp_all
  then show ?thesis by (simp add: spec_candidates_def)
qed

lemma scanned_length:
  assumes "loop_rounds n (gridSize / Num 2) (Num 1 / (density * Num 10)) (- gridSize / Num 2)"
  shows "\<exists>cs. scannedCandidates gridSize density = Some cs \<and> length cs = n * n"
  using scannedCandidates_rounds[OF assms] by simp

lemma scanned_rounds:
  assumes "scannedCandidates gridSize density = Some cs"
  shows "\<exists>n. loop_rounds n (gridSize / Num 2) (Num 1 / (density * Num 10)) (- gridSize / Num 2)
            \<and> cs = spec_candidates
                     (loop_values n (- gridSize / Num 2) (Num 1 / (density * Num 10)))"
proof -
  from scannedCandidates_returns_rounds[OF assms] obtain n where
    n: "loop_rounds n (gridSize / Num 2) (Num 1 / (density * Num 10)) (- gridSize / Num 2)"
    by blast
  from scannedCandidates_rounds[OF n] assms show ?thesis using n by auto
qed

lemma placed_rounds:
  assumes "generateTreePositions lib surface gridSize density seed = Some ps"
  shows "\<exists>n. loop_rounds n (gridSize / Num 2) (Num 1 / (density * Num 10)) (- gridSize / Num 2)
            \<and> ps = spec_anchors lib surface seed
                     (loop_values n (- gridSize / Num 2) (Num 1 / (density * Num 10)))"
proof -
  from generateTreePositions_returns_rounds[OF assms] obtain n where
    n: "loop_rounds n (gridSize / Num 2) (Num 1 / (density * Num 10)) (- gridSize / Num 2)"
    by blast
  from generateTreePositions_rounds[OF n, of lib surface seed] assms show ?thesis using n by auto
qed

text \<open>
  With finite numbers and a positive step the loop ends: each round brings the variable
  nearer to the limit by the step. A start that is not smaller and a step that is not
  smaller end the loop no later, and the values of the variable ascend.
\<close>

lemma loop_rounds_exists:
  assumes s: "0 < s"
  shows "\<exists>n. loop_rounds n (Num hi) (Num s) (Num lo)"
proof (induction "nat \<lceil>(hi - lo) / s\<rceil>" arbitrary: lo)
  case 0
  then have "\<lceil>(hi - lo) / s\<rceil> \<le> 0" by simp
  then have "(hi - lo) / s \<le> 0" by (simp add: ceiling_le_iff)
  then have "\<not> lo < hi" using s by (simp add: divide_le_0_iff)
  then have "loop_rounds 0 (Num hi) (Num s) (Num lo)" by simp
  then show ?case by blast
next
  case (Suc k)
  show ?case
  proof (cases "lo < hi")
    case False
    then have "loop_rounds 0 (Num hi) (Num s) (Num lo)" by simp
    then show ?thesis by blast
  next
    case True
    have e: "(hi - (lo + s)) / s = (hi - lo) / s - 1"
      using s by (simp add: field_simps)
    have "k = nat \<lceil>(hi - (lo + s)) / s\<rceil>"
      unfolding e using Suc(2) by simp
    from Suc(1)[OF this] obtain n where "loop_rounds n (Num hi) (Num s) (Num (lo + s))"
      by blast
    with True have "loop_rounds (Suc n) (Num hi) (Num s) (Num lo)" by simp
    then show ?thesis by blast
  qed
qed

lemma loop_rounds_mono:
  assumes "loop_rounds n (Num l) (Num s2) (Num a)" and "a \<le> b" and "s2 \<le> s1"
  shows "\<exists>m\<le>n. loop_rounds m (Num l) (Num s1) (Num b)"
  using assms(1,2)
proof (induction n arbitrary: a b)
  case 0
  then have "loop_rounds 0 (Num l) (Num s1) (Num b)" by simp
  then show ?case by blast
next
  case (Suc n)
  show ?case
  proof (cases "b < l")
    case False
    then have "loop_rounds 0 (Num l) (Num s1) (Num b)" by simp
    then show ?thesis by blast
  next
    case True
    from Suc.prems have r: "loop_rounds n (Num l) (Num s2) (Num (a + s2))" by simp
    have "a + s2 \<le> b + s1" using Suc.prems(2) assms(3) by simp
    from Suc.IH[OF r this] obtain m where m: "m \<le> n" "loop_rounds m (Num l) (Num s1) (Num (b + s1))"
      by blast
    with True have "loop_rounds (Suc m) (Num l) (Num s1) (Num b)" by simp
    with m(1) show ?thesis by (metis Suc_le_mono)
  qed
qed

lemma loop_values_ascending:
  assumes "0 < s"
  shows "sorted_wrt (<) (loop_values n (Num a) (Num s))
       \<and> (\<forall>x\<in>set (loop_values n (Num a) (Num s)). Num a \<le> x)"
proof (induction n arbitrary: a)
  case 0
  show ?case by simp
next
  case (Suc n)
  have ih: "sorted_wrt (<) (loop_values n (Num (a + s)) (Num s))"
    and lb: "\<forall>x\<in>set (loop_values n (Num (a + s)) (Num s)). Num (a + s) \<le> x"
    using Suc.IH[of "a + s"] by simp_all
  have up: "Num a < x \<and> Num a \<le> x" if "Num (a + s) \<le> x" for x
    using that assms by (cases x) simp_all
  show ?case using ih lb up by auto
qed

lemma pass_rounds_exist:
  assumes "0 < d"
  shows "\<exists>n. loop_rounds n (Num g / Num 2) (Num 1 / (Num d * Num 10)) (- Num g / Num 2)"
proof -
  have "0 < 1 / (d * 10)" using assms by simp
  from loop_rounds_exists[OF this, of "g / 2" "- g / 2"] obtain n where
    "loop_rounds n (Num (g / 2)) (Num (1 / (d * 10))) (Num (- g / 2))" by blast
  moreover have "Num g / Num 2 = Num (g / 2)" "- Num g / Num 2 = Num (- g / 2)"
    "Num 1 / (Num d * Num 10) = Num (1 / (d * 10))"
    using assms by simp_all
  ultimately show ?thesis by auto
qed

lemma generateTreePositions_returns:
  assumes "0 < d"
  shows "\<exists>ps. generateTreePositions lib surface (Num g) (Num d) seed = Some ps"
  using pass_rounds_exist[OF assms, of g] generateTreePositions_rounds by blast

lemma scannedCandidates_returns:
  assumes "0 < d"
  shows "\<exists>cs. scannedCandidates (Num g) (Num d) = Some cs"
  using pass_rounds_exist[OF assms, of g] scannedCandidates_rounds by blast

lemma scanned_mono:
  assumes d: "0 < d1" "d1 < d2"
    and s: "scannedCandidates (Num g) (Num d2) = Some c2"
  shows "\<exists>c1. scannedCandidates (Num g) (Num d1) = Some c1 \<and> length c1 \<le> length c2"
proof -
  have e: "Num g / Num 2 = Num (g / 2)" "- Num g / Num 2 = Num (- g / 2)"
    "Num 1 / (Num d1 * Num 10) = Num (1 / (d1 * 10))"
    "Num 1 / (Num d2 * Num 10) = Num (1 / (d2 * 10))"
    using d by simp_all
  from scanned_rounds[OF s] obtain n2 where
    n2: "loop_rounds n2 (Num (g / 2)) (Num (1 / (d2 * 10))) (Num (- g / 2))"
    and c2: "length c2 = n2 * n2"
    unfolding e by auto
  have "1 / (d2 * 10) \<le> 1 / (d1 * 10)"
    using d by (simp add: frac_le)
  from loop_rounds_mono[OF n2 order_refl this] obtain n1 where
    n1: "n1 \<le> n2" "loop_rounds n1 (Num (g / 2)) (Num (1 / (d1 * 10))) (Num (- g / 2))"
    by blast
  from scanned_length[of n1 "Num g" "Num d1"] n1(2) obtain c1 where
    "scannedCandidates (Num g) (Num d1) = Some c1" "length c1 = n1 * n1"
    unfolding e by blast
  moreover have "n1 * n1 \<le> n2 * n2" using n1(1) by (simp add: mult_le_mono)
  ultimately show ?thesis using c2 by auto
qed

text \<open>
  An invariant of a loop that returns holds of its result, if the body keeps it. Of the
  pass: every position added sits on the surface.
\<close>

lemma for_loop_preserves_aux:
  assumes "for_loop limit step body v acc = Some r"
  shows "(\<forall>w a a'. I a \<longrightarrow> body w a = Some a' \<longrightarrow> I a') \<longrightarrow> I acc \<longrightarrow> I r"
  using assms
proof (induction limit step body v acc r rule: for_loop.raw_induct[rotated 1, consumes 1])
  case (1 loop limit step body v acc r)
  show ?case
  proof (intro impI)
    assume b: "\<forall>w a a'. I a \<longrightarrow> body w a = Some a' \<longrightarrow> I a'" and i: "I acc"
    show "I r"
    proof (cases "v < limit")
      case True
      with 1(2) obtain a' where a': "body v acc = Some a'"
        and l: "loop limit step body (v + step) a' = Some r"
        by (auto simp: bind_eq_Some_conv)
      have "I a'" using b i a' by blast
      with 1(1)[OF l] b show ?thesis by blast
    next
      case False
      with 1(2) i show ?thesis by simp
    qed
  qed
qed

lemma for_loop_preserves:
  assumes "for_loop limit step body v acc = Some r"
    and "\<And>w a a'. I a \<Longrightarrow> body w a = Some a' \<Longrightarrow> I a'"
    and "I acc"
  shows "I r"
  using for_loop_preserves_aux[OF assms(1), of I] assms(2,3) by blast

lemma generateTreePositions_on_surface:
  assumes "generateTreePositions lib surface gridSize density seed = Some ps"
  shows "list_all (on_surface lib surface) ps"
  apply (rule for_loop_preserves[where I = "list_all (on_surface lib surface)",
          OF assms[unfolded generateTreePositions_def Let_def]])
   apply (erule for_loop_preserves[where I = "list_all (on_surface lib surface)"])
    apply (auto simp: on_surface_def Let_def split: if_splits)
  done

text \<open>
The anchors of one candidate: none, or the one the specification describes.
\<close>

lemma spec_anchor_reject:
  assumes "\<not> Num 0.6 < improvedPerlinNoise (x / Num 5) (z / Num 5) 3 (Num 0.5) (Num 2) seed"
  shows "spec_anchor lib surface seed x z = []"
  using assms by (simp add: spec_anchor_def)

lemma spec_anchor_miss:
  assumes "intersectObject lib surface (Vector3 x (Num 100) z)
             (Vector3 (Num 0) (Num (- 1)) (Num 0)) = []"
  shows "spec_anchor lib surface seed x z = []"
  using assms by (simp add: spec_anchor_def)

lemma spec_anchor_hit:
  assumes "Num 0.6 < improvedPerlinNoise (x / Num 5) (z / Num 5) 3 (Num 0.5) (Num 2) seed"
    and "intersectObject lib surface (Vector3 x (Num 100) z)
             (Vector3 (Num 0) (Num (- 1)) (Num 0)) = hit # rest"
  shows "spec_anchor lib surface seed x z = [Vector3 x (vec_y (point hit) + Num 0.5) z]"
  using assms by (simp add: spec_anchor_def)

lemma spec_anchor_member:
  "Vector3 x y z \<in> set (spec_anchor lib surface seed x' z') \<longleftrightarrow>
     x = x' \<and> z = z'
     \<and> Num 0.6 < improvedPerlinNoise (x / Num 5) (z / Num 5) 3 (Num 0.5) (Num 2) seed
     \<and> (\<exists>hit rest. intersectObject lib surface (Vector3 x (Num 100) z)
                         (Vector3 (Num 0) (Num (- 1)) (Num 0)) = hit # rest
                     \<and> y = vec_y (point hit) + Num 0.5)"
proof (cases "Num 0.6 < improvedPerlinNoise (x' / Num 5) (z' / Num 5) 3 (Num 0.5) (Num 2) seed")
  case False
  then show ?thesis
    using spec_anchor_reject[OF False, of lib surface] by auto
next
  case True
  show ?thesis
  proof (cases "intersectObject lib surface (Vector3 x' (Num 100) z')
                  (Vector3 (Num 0) (Num (- 1)) (Num 0))")
    case Nil
    then show ?thesis
      using spec_anchor_miss[OF Nil, of seed] by auto
  next
    case (Cons hit rest)
    then show ?thesis
      using True spec_anchor_hit[OF True Cons] by auto
  qed
qed

lemma spec_anchors_member:
  "p \<in> set (spec_anchors lib surface seed axis) \<longleftrightarrow>
     (\<exists>x\<in>set axis. \<exists>z\<in>set axis. p \<in> set (spec_anchor lib surface seed x z))"
  by (auto simp: spec_anchors_def)

text \<open>
  A region of size 4 scanned at density 0.05 (step 2): each loop makes two rounds, at \<open>-2\<close>
  and at \<open>0\<close>; at density 0.1 (step 1) it makes four. With seed \<open>-3\<close> the candidate
  \<open>(0, 0)\<close> is accepted, with seed 123 the candidate \<open>(0, -2)\<close>, and above a surface at
  elevation 0 their anchors are at height 0.5.
\<close>

lemma rounds_4:
  "loop_rounds 2 (Num 4 / Num 2) (Num 1 / (Num (1 / 20) * Num 10)) (- Num 4 / Num 2)"
  by (simp add: numeral_2_eq_2)

lemma values_4:
  "loop_values 2 (- Num 4 / Num 2) (Num 1 / (Num (1 / 20) * Num 10)) = [Num (- 2), Num 0]"
  by (simp add: numeral_2_eq_2)

lemma rounds_4_dense:
  "loop_rounds 4 (Num 4 / Num 2) (Num 1 / (Num (1 / 10) * Num 10)) (- Num 4 / Num 2)"
  by (simp add: eval_nat_numeral)

lemma anchor_origin:
  "spec_anchor one_segment_plane surface (Num (- 3)) (Num 0) (Num 0)
     = [Vector3 (Num 0) (Num (1 / 2)) (Num 0)]"
  using noise_origin_seed_minus_3 by (simp add: spec_anchor_def one_segment_plane_def)

lemma anchor_seed_123:
  "spec_anchor one_segment_plane surface (Num 123) (Num 0) (Num (- 2))
     = [Vector3 (Num 0) (Num (1 / 2)) (Num (- 2))]"
  using noise_seed_123 by (simp add: spec_anchor_def one_segment_plane_def)

lemma spec_anchors_seed_NaN: "spec_anchors lib surface NaN axis = []"
  by (simp add: spec_anchors_def spec_anchor_def noise_seed_NaN)

lemma pass_4_seed_minus_3:
  "\<exists>ps. generateTreePositions one_segment_plane surface (Num 4) (Num (1 / 20)) (Num (- 3))
           = Some ps
        \<and> Vector3 (Num 0) (Num (1 / 2)) (Num 0) \<in> set ps"
proof -
  have "Vector3 (Num 0) (Num (1 / 2)) (Num 0)
          \<in> set (spec_anchors one_segment_plane surface (Num (- 3)) [Num (- 2), Num 0])"
    unfolding spec_anchors_member using anchor_origin[of surface] by simp
  then show ?thesis
    using generateTreePositions_rounds[OF rounds_4, of one_segment_plane surface "Num (- 3)"]
    unfolding values_4 by simp
qed

section \<open>Anchors of the placement pass\<close>

text \<open>
  Claim C4. Whatever the arguments, when \<open>generateTreePositions\<close> returns, every position
  it returns sits on the surface: the downward ray at its \<open>(x, z)\<close> hits, and its \<open>y\<close> is the
  elevation of the first intersection plus 0.5. So a candidate whose ray misses has no
  entry. The pass has no error value; for a finite region size and a positive finite
  density it returns.
\<close>

theorem placement_anchor_on_surface:
  "(\<forall>ps. generateTreePositions lib surface gridSize density seed = Some ps \<longrightarrow>
       list_all (on_surface lib surface) ps
       \<and> (\<forall>x z. intersectObject lib surface (Vector3 x (Num 100) z)
                    (Vector3 (Num 0) (Num (- 1)) (Num 0)) = []
                  \<longrightarrow> (\<forall>y. Vector3 x y z \<notin> set ps)))
   \<and> (\<forall>g d. gridSize = Num g \<and> density = Num d \<and> 0 < d \<longrightarrow>
         (\<exists>ps. generateTreePositions lib surface gridSize density seed = Some ps))"
proof (intro conjI allI impI)
  fix ps
  assume g: "generateTreePositions lib surface gridSize density seed = Some ps"
  show "list_all (on_surface lib surface) ps"
    using g by (rule generateTreePositions_on_surface)
next
  fix ps x z y
  assume g: "generateTreePositions lib surface gridSize density seed = Some ps"
    and miss: "intersectObject lib surface (Vector3 x (Num 100) z)
                 (Vector3 (Num 0) (Num (- 1)) (Num 0)) = []"
  show "Vector3 x y z \<notin> set ps"
  proof
    assume "Vector3 x y z \<in> set ps"
    with generateTreePositions_on_surface[OF g] have "on_surface lib surface (Vector3 x y z)"
      by (simp add: list_all_iff)
    with miss show False by (simp add: on_surface_def)
  qed
next
  fix g d
  assume "gridSize = Num g \<and> density = Num d \<and> 0 < d"
  then show "\<exists>ps. generateTreePositions lib surface gridSize density seed = Some ps"
    using generateTreePositions_returns[of d lib surface g seed] by simp
qed

theorem placement_anchor_on_surface_witness:
  "\<exists>ps. generateTreePositions one_segment_plane (createTerrain one_segment_plane flat_config)
            (Num 4) (Num (1 / 20)) (Num (- 3)) = Some ps
        \<and> Vector3 (Num 0) (Num (1 / 2)) (Num 0) \<in> set ps
        \<and> list_all (on_surface one_segment_plane (createTerrain one_segment_plane flat_config)) ps"
proof -
  let ?S = "createTerrain one_segment_plane flat_config"
  obtain ps where
    g: "generateTreePositions one_segment_plane ?S (Num 4) (Num (1 / 20)) (Num (- 3)) = Some ps"
    and m: "Vector3 (Num 0) (Num (1 / 2)) (Num 0) \<in> set ps"
    using pass_4_seed_minus_3[of ?S] by blast
  have "list_all (on_surface one_segment_plane ?S) ps"
    using placement_anchor_on_surface[of one_segment_plane ?S "Num 4" "Num (1 / 20)" "Num (- 3)"] g
    by blast
  with g m show ?thesis by blast
qed

text \<open>
  Claim C5. The pass returns exactly when its loops make some number \<open>n\<close> of rounds. The
  axis is then the list of the \<open>n\<close> values of the loop variable: \<open>-gridSize / 2\<close> first, each
  further one the one before plus the step \<open>1 / (density * 10)\<close>, all of them below
  \<open>gridSize / 2\<close>. The result lists the anchors of the candidates \<open>(x, z)\<close> in scan order,
  \<open>x\<close> from the axis in the outer loop and \<open>z\<close> from the axis in the inner one; the
  candidates visited are the pairs of the axis in the same order. A position at \<open>(x, z)\<close>
  is in the result if and only if \<open>x\<close> and \<open>z\<close> are on the axis, the noise value
  \<open>improvedPerlinNoise(x / 5, z / 5, 3, 0.5, 2.0, seed)\<close> exceeds 0.6 and the downward ray
  hits the surface, its \<open>y\<close> being the first intersection's elevation plus 0.5. For a finite
  region size and a positive finite density the axis ascends strictly and does not start
  below \<open>-gridSize / 2\<close>.
\<close>

theorem placement_scan_order:
  "(generateTreePositions lib surface gridSize density seed = Some ps \<longleftrightarrow>
      (\<exists>n. loop_rounds n (gridSize / Num 2) (Num 1 / (density * Num 10)) (- gridSize / Num 2)
          \<and> ps = spec_anchors lib surface seed
                   (loop_values n (- gridSize / Num 2) (Num 1 / (density * Num 10)))))
   \<and> (scannedCandidates gridSize density = Some cs \<longleftrightarrow>
      (\<exists>n. loop_rounds n (gridSize / Num 2) (Num 1 / (density * Num 10)) (- gridSize / Num 2)
          \<and> cs = spec_candidates
                   (loop_values n (- gridSize / Num 2) (Num 1 / (density * Num 10)))))
   \<and> (\<forall>n. loop_rounds n (gridSize / Num 2) (Num 1 / (density * Num 10)) (- gridSize / Num 2) \<longrightarrow>
         (let axis = loop_values n (- gridSize / Num 2) (Num 1 / (density * Num 10))
          in (\<forall>v \<in> set axis. v < gridSize / Num 2)
           \<and> (\<forall>x y z. Vector3 x y z \<in> set (spec_anchors lib surface seed axis) \<longleftrightarrow>
                  x \<in> set axis \<and> z \<in> set axis
                  \<and> Num 0.6 < improvedPerlinNoise (x / Num 5) (z / Num 5) 3 (Num 0.5) (Num 2) seed
                  \<and> (\<exists>hit rest. intersectObject lib surface (Vector3 x (Num 100) z)
                                      (Vector3 (Num 0) (Num (- 1)) (Num 0)) = hit # rest
                                  \<and> y = vec_y (point hit) + Num 0.5))
           \<and> (\<forall>g d. gridSize = Num g \<and> density = Num d \<and> 0 < d \<longrightarrow>
                  sorted_wrt (<) axis \<and> (\<forall>v \<in> set axis. - gridSize / Num 2 \<le> v))))"
proof (intro conjI allI impI)
  show "generateTreePositions lib surface gridSize density seed = Some ps \<longleftrightarrow>
      (\<exists>n. loop_rounds n (gridSize / Num 2) (Num 1 / (density * Num 10)) (- gridSize / Num 2)
          \<and> ps = spec_anchors lib surface seed
                   (loop_values n (- gridSize / Num 2) (Num 1 / (density * Num 10))))"
    using placed_rounds[of lib surface gridSize density seed ps]
      generateTreePositions_rounds[of _ gridSize density lib surface seed]
    by auto
  show "scannedCandidates gridSize density = Some cs \<longleftrightarrow>
      (\<exists>n. loop_rounds n (gridSize / Num 2) (Num 1 / (density * Num 10)) (- gridSize / Num 2)
          \<and> cs = spec_candidates
                   (loop_values n (- gridSize / Num 2) (Num 1 / (density * Num 10))))"
    using scanned_rounds[of gridSize density cs] scannedCandidates_rounds[of _ gridSize density]
    by auto
next
  fix n
  assume n: "loop_rounds n (gridSize / Num 2) (Num 1 / (density * Num 10)) (- gridSize / Num 2)"
  let ?axis = "loop_values n (- gridSize / Num 2) (Num 1 / (density * Num 10))"
  have a: "\<forall>v \<in> set ?axis. v < gridSize / Num 2"
    using loop_values_below[OF n] by blast
  have b: "Vector3 x y z \<in> set (spec_anchors lib surface seed ?axis) \<longleftrightarrow>
                  x \<in> set ?axis \<and> z \<in> set ?axis
                  \<and> Num 0.6 < improvedPerlinNoise (x / Num 5) (z / Num 5) 3 (Num 0.5) (Num 2) seed
                  \<and> (\<exists>hit rest. intersectObject lib surface (Vector3 x (Num 100) z)
                                      (Vector3 (Num 0) (Num (- 1)) (Num 0)) = hit # rest
                                  \<and> y = vec_y (point hit) + Num 0.5)" for x y z
    unfolding spec_anchors_member spec_anchor_member by blast
  have c: "sorted_wrt (<) ?axis \<and> (\<forall>v \<in> set ?axis. - gridSize / Num 2 \<le> v)"
    if h: "gridSize = Num g \<and> density = Num d \<and> 0 < d" for g d
  proof -
    have e: "- gridSize / Num 2 = Num (- g / 2)"
      "Num 1 / (density * Num 10) = Num (1 / (d * 10))"
      using h by simp_all
    have "0 < 1 / (d * 10)" using h by simp
    from loop_values_ascending[OF this, of n "- g / 2"] show ?thesis
      unfolding e by simp
  qed
  show "let axis = ?axis
          in (\<forall>v \<in> set axis. v < gridSize / Num 2)
           \<and> (\<forall>x y z. Vector3 x y z \<in> set (spec_anchors lib surface seed axis) \<longleftrightarrow>
                  x \<in> set axis \<and> z \<in> set axis
                  \<and> Num 0.6 < improvedPerlinNoise (x / Num 5) (z / Num 5) 3 (Num 0.5) (Num 2) seed
                  \<and> (\<exists>hit rest. intersectObject lib surface (Vector3 x (Num 100) z)
                                      (Vector3 (Num 0) (Num (- 1)) (Num 0)) = hit # rest
                                  \<and> y = vec_y (point hit) + Num 0.5))
           \<and> (\<forall>g d. gridSize = Num g \<and> density = Num d \<and> 0 < d \<longrightarrow>
                  sorted_wrt (<) axis \<and> (\<forall>v \<in> set axis. - gridSize / Num 2 \<le> v))"
    unfolding Let_def using a b c by blast
qed

theorem placement_scan_order_witness:
  "loop_rounds 2 (Num 4 / Num 2) (Num 1 / (Num (1 / 20) * Num 10)) (- Num 4 / Num 2)
   \<and> generateTreePositions one_segment_plane (createTerrain one_segment_plane flat_config)
        (Num 4) (Num (1 / 20)) (Num (- 3))
      = Some (spec_anchors one_segment_plane (createTerrain one_segment_plane flat_config)
                (Num (- 3)) [Num (- 2), Num 0])
   \<and> scannedCandidates (Num 4) (Num (1 / 20))
      = Some [(Num (- 2), Num (- 2)), (Num (- 2), Num 0), (Num 0, Num (- 2)), (Num 0, Num 0)]
   \<and> Vector3 (Num 0) (Num (1 / 2)) (Num 0)
        \<in> set (spec_anchors one_segment_plane (createTerrain one_segment_plane flat_config)
                 (Num (- 3)) [Num (- 2), Num 0])
   \<and> sorted_wrt (<) [Num (- 2), Num 0]
   \<and> - Num 4 / Num 2 \<le> Num (- 2) \<and> Num (- 2) < Num 4 / Num 2
   \<and> - Num 4 / Num 2 \<le> Num 0 \<and> Num 0 < Num 4 / Num 2"
proof -
  let ?L = one_segment_plane
  let ?S = "createTerrain one_segment_plane flat_config"
  note t = placement_scan_order[of ?L ?S "Num 4" "Num (1 / 20)" "Num (- 3)"
      "spec_anchors ?L ?S (Num (- 3)) [Num (- 2), Num 0]"
      "spec_candidates [Num (- 2), Num 0]"]
  have g: "generateTreePositions ?L ?S (Num 4) (Num (1 / 20)) (Num (- 3))
      = Some (spec_anchors ?L ?S (Num (- 3)) [Num (- 2), Num 0])"
    using t rounds_4 values_4 by metis
  have s: "scannedCandidates (Num 4) (Num (1 / 20)) = Some (spec_candidates [Num (- 2), Num 0])"
    using t rounds_4 values_4 by metis
  note u = t[THEN conjunct2, THEN conjunct2, rule_format, OF rounds_4, unfolded values_4 Let_def]
  have hit: "intersectObject ?L ?S (Vector3 (Num 0) (Num 100) (Num 0))
               (Vector3 (Num 0) (Num (- 1)) (Num 0))
             = \<lparr>ray_distance = Num 100, point = Vector3 (Num 0) (Num 0) (Num 0)\<rparr> # []"
    by (simp add: one_segment_plane_def)
  have m: "Vector3 (Num 0) (Num (1 / 2)) (Num 0)
        \<in> set (spec_anchors ?L ?S (Num (- 3)) [Num (- 2), Num 0])"
    using u[THEN conjunct2, THEN conjunct1, rule_format,
            of "Num 0" "Num (1 / 2)" "Num 0"] noise_origin_seed_minus_3 hit
    by simp
  have o: "sorted_wrt (<) [Num (- 2), Num 0]
           \<and> (\<forall>v \<in> set [Num (- 2), Num 0]. - Num 4 / Num 2 \<le> v)"
    using u[THEN conjunct2, THEN conjunct2, rule_format, of 4 "1 / 20"] by simp
  have b: "\<forall>v \<in> set [Num (- 2), Num 0]. v < Num 4 / Num 2"
    using u[THEN conjunct1] .
  show ?thesis
    using rounds_4 g s m o b by (simp add: spec_candidates_def)
qed

text \<open>
  Claim C6. For a finite region size and finite densities \<open>0 < d1 < d2\<close>: when the scan at
  density \<open>d2\<close> returns, so does the scan at density \<open>d1\<close>, and it visits no more
  candidates. The candidates of the scan are those the placement pass tests: the pass
  returns exactly when the scan does, and its result is the anchors of the scanned
  candidates in their order. For a region size of at most 1000 and a density of at most
  1000 the scan returns.
\<close>

theorem density_monotone:
  "(\<forall>g d1 d2 c2. 0 < d1 \<and> d1 < d2 \<and> scannedCandidates (Num g) (Num d2) = Some c2 \<longrightarrow>
       (\<exists>c1. scannedCandidates (Num g) (Num d1) = Some c1 \<and> length c1 \<le> length c2))
   \<and> generateTreePositions lib surface gridSize density seed =
       map_option (\<lambda>cs. concat (map (\<lambda>(x, z). spec_anchor lib surface seed x z) cs))
         (scannedCandidates gridSize density)
   \<and> (\<forall>g d. \<bar>g\<bar> \<le> 1000 \<and> 0 < d \<and> d \<le> 1000 \<longrightarrow>
         (\<exists>cs. scannedCandidates (Num g) (Num d) = Some cs))"
  using scanned_mono generateTreePositions_scanned[of lib surface gridSize density seed]
    scannedCandidates_returns
  by blast

theorem density_monotone_witness:
  "\<exists>c1 c2. scannedCandidates (Num 4) (Num (1 / 10)) = Some c2 \<and> length c2 = 16
         \<and> scannedCandidates (Num 4) (Num (1 / 20)) = Some c1 \<and> length c1 = 4
         \<and> length c1 \<le> length c2"
proof -
  note t = density_monotone[of one_segment_plane "createTerrain one_segment_plane flat_config"
      "Num 4" "Num (1 / 20)" "Num (- 3)"]
  have "\<bar>4::real\<bar> \<le> 1000 \<and> (0::real) < 1 / 10 \<and> (1::real) / 10 \<le> 1000" by simp
  with t obtain c2 where c2: "scannedCandidates (Num 4) (Num (1 / 10)) = Some c2"
    by blast
  have l2: "length c2 = 16"
    using scanned_length[OF rounds_4_dense] c2 by auto
  have "(0::real) < 1 / 20 \<and> (1::real) / 20 < 1 / 10" by simp
  with t c2
  obtain c1 where c1: "scannedCandidates (Num 4) (Num (1 / 20)) = Some c1" "length c1 \<le> length c2"
    by blast
  have "length c1 = 4"
    using scanned_length[OF rounds_4] c1(1) by auto
  with c1 c2 l2 show ?thesis by blast
qed


section \<open>The scene composer\<close>

lemma regenerate_Some:
  assumes "regenerate lib this s = Some (sc, this')"
  shows "\<exists>ps. generateTreePositions lib (createTerrain lib (config this))
                (Math_min (width (config this)) (height (config this))) (Num 0.05) s = Some ps
            \<and> this' = this\<lparr>terrain := createTerrain lib (config this),
                            trees := map (\<lambda>position. createTree position (treeConfig this)) ps\<rparr>
            \<and> sc = \<lparr>scene_terrain = createTerrain lib (config this),
                     scene_trees = map (\<lambda>position. createTree position (treeConfig this)) ps\<rparr>"
  using assms by (auto simp: regenerate_def Let_def bind_eq_Some_conv)

lemma generate_Some:
  assumes "generate lib this n = Some (sc, this')"
  shows "\<exists>ps. generateTreePositions lib (terrain this)
                (Math_min (width (config this)) (height (config this)))
                (generate_density (config this) n) (Num 123) = Some ps
            \<and> this' = this\<lparr>trees := trees this @ map (\<lambda>position. createTree position (treeConfig this)) ps\<rparr>
            \<and> sc = \<lparr>scene_terrain = terrain this,
                     scene_trees = trees this @ map (\<lambda>position. createTree position (treeConfig this)) ps\<rparr>"
  using assms by (auto simp: generate_def Let_def bind_eq_Some_conv)

lemma regenerate_returns:
  assumes "Math_min (width (config this)) (height (config this)) = Num g"
  shows "\<exists>sc this'. regenerate lib this s = Some (sc, this')"
proof -
  have "(0::real) < 5 / 100" by simp
  from generateTreePositions_returns[OF this, of lib "createTerrain lib (config this)" g s]
  obtain ps where
    "generateTreePositions lib (createTerrain lib (config this)) (Num g) (Num (5 / 100)) s = Some ps"
    by blast
  then show ?thesis
    by (simp add: regenerate_def Let_def assms)
qed



text \<open>
  Claim C7, as the code has it. \<open>generate\<close> runs the placement pass with the density
  \<open>generate_density\<close>: for a tree count that is given and truthy (not 0, not \<open>NaN\<close>) it is
  \<open>treeCount / (width * height)\<close>; for a count that is not given, or is 0 or \<open>NaN\<close>, it
  is the default 0.05.
\<close>

theorem generate_density_passed:
  "(truthy n \<longrightarrow> generate_density cfg (Some n) = n / (width cfg * height cfg))
   \<and> (\<not> truthy n \<longrightarrow> generate_density cfg (Some n) = Num 0.05)
   \<and> generate_density cfg None = Num 0.05
   \<and> (\<forall>ps. generateTreePositions lib (terrain this)
               (Math_min (width (config this)) (height (config this)))
               (generate_density (config this) treeCount') (Num 123) = Some ps \<longrightarrow>
            (\<exists>sc this'. generate lib this treeCount' = Some (sc, this')
               \<and> trees this' =
                   trees this @ map (\<lambda>position. createTree position (treeConfig this)) ps))
   \<and> (generateTreePositions lib (terrain this)
         (Math_min (width (config this)) (height (config this)))
         (generate_density (config this) treeCount') (Num 123) = None \<longrightarrow>
       generate lib this treeCount' = None)"
  by (simp add: generate_density_def generate_def Let_def)

theorem generate_density_passed_witness:
  "truthy (Num 500) \<and> \<not> truthy (Num 0)
   \<and> generate_density flat_config (Some (Num 500)) = Num (1 / 20)
   \<and> generate_density flat_config (Some (Num 0)) = Num (1 / 20)
   \<and> (\<exists>sc this'. generate one_segment_plane
          (new_TerrainGenerator one_segment_plane flat_config default_treeConfig)
          (Some (Num 500)) = Some (sc, this'))"
proof -
  let ?L = one_segment_plane
  let ?T = "new_TerrainGenerator ?L flat_config default_treeConfig"
  have c: "config ?T = flat_config"
    by (simp add: new_TerrainGenerator_def)
  have d: "generate_density flat_config (Some (Num 500)) = Num (1 / 20)"
    using generate_density_passed[of "Num 500" flat_config]
    by (simp add: flat_config_fields)
  have d0: "generate_density flat_config (Some (Num 0)) = Num (1 / 20)"
    using generate_density_passed[of "Num 0" flat_config] by simp
  have "\<exists>ps. generateTreePositions ?L (terrain ?T)
               (Math_min (width (config ?T)) (height (config ?T)))
               (generate_density (config ?T) (Some (Num 500))) (Num 123) = Some ps"
    unfolding c d using generateTreePositions_returns[of "1 / 20" ?L "terrain ?T" 100 "Num 123"]
    by (simp add: flat_config_fields)
  then have "\<exists>sc this'. generate ?L ?T (Some (Num 500)) = Some (sc, this')"
    using generate_density_passed[of _ _ ?L ?T "Some (Num 500)"] by blast
  then show ?thesis using d d0 by simp
qed

text \<open>
  A tree count of 0 is given, and yet the density passed is the default 0.05 and not
  \<open>0 / (width * height) = 0\<close>.
\<close>

theorem generate_density_zero_count:
  "generate_density flat_config (Some (Num 0))
     \<noteq> Num 0 / (width flat_config * height flat_config)"
  by (simp add: generate_density_def flat_config_fields)

text \<open>
  Claim C10. \<open>generate\<close> appends to the tree collection and leaves the terrain and the
  configs as they are: after two calls that return, the collection is the one before,
  followed by the trees of the first pass and the trees of the second, and \<open>getStats\<close>
  counts them all (for a new generator, the sum of the two passes). After \<open>regenerate\<close>
  the collection holds the trees of its own pass only, whatever it held before. For a
  finite region size of at most 1000 \<open>regenerate\<close> returns, and so do the two \<open>generate\<close>
  calls for positive finite densities of at most 1000.
\<close>

theorem generate_accumulates_trees:
  "(\<forall>sc1 this1 sc2 this2.
      generate lib this a = Some (sc1, this1) \<longrightarrow> generate lib this1 b = Some (sc2, this2) \<longrightarrow>
      (\<exists>ps1 ps2.
         generateTreePositions lib (terrain this)
           (Math_min (width (config this)) (height (config this)))
           (generate_density (config this) a) (Num 123) = Some ps1
       \<and> generateTreePositions lib (terrain this)
           (Math_min (width (config this)) (height (config this)))
           (generate_density (config this) b) (Num 123) = Some ps2
       \<and> trees this1 = trees this @ map (\<lambda>position. createTree position (treeConfig this)) ps1
       \<and> trees this2 = trees this1 @ map (\<lambda>position. createTree position (treeConfig this)) ps2
       \<and> terrain this2 = terrain this \<and> config this2 = config this
       \<and> treeConfig this2 = treeConfig this
       \<and> treeCount (getStats this2) =
           Num (real (length (trees this) + length ps1 + length ps2))))
   \<and> (\<forall>sc this'. regenerate lib this s = Some (sc, this') \<longrightarrow>
         (\<exists>ps. generateTreePositions lib (createTerrain lib (config this))
                  (Math_min (width (config this)) (height (config this))) (Num 0.05) s = Some ps
              \<and> trees this' = map (\<lambda>position. createTree position (treeConfig this)) ps
              \<and> treeCount (getStats this') = Num (real (length ps))))
   \<and> (\<forall>g da db.
         Math_min (width (config this)) (height (config this)) = Num g \<and> \<bar>g\<bar> \<le> 1000
         \<and> generate_density (config this) a = Num da \<and> 0 < da \<and> da \<le> 1000
         \<and> generate_density (config this) b = Num db \<and> 0 < db \<and> db \<le> 1000 \<longrightarrow>
         (\<exists>sc1 this1 sc2 this2.
            generate lib this a = Some (sc1, this1) \<and> generate lib this1 b = Some (sc2, this2)))
   \<and> (\<forall>g. Math_min (width (config this)) (height (config this)) = Num g \<and> \<bar>g\<bar> \<le> 1000 \<longrightarrow>
         (\<exists>sc this'. regenerate lib this s = Some (sc, this')))"
proof (intro conjI allI impI)
  fix sc1 this1 sc2 this2
  assume g1: "generate lib this a = Some (sc1, this1)"
    and g2: "generate lib this1 b = Some (sc2, this2)"
  from generate_Some[OF g1] obtain ps1 where
    p1: "generateTreePositions lib (terrain this)
           (Math_min (width (config this)) (height (config this)))
           (generate_density (config this) a) (Num 123) = Some ps1"
    and t1: "this1 = this\<lparr>trees := trees this @ map (\<lambda>position. createTree position (treeConfig this)) ps1\<rparr>"
    by blast
  from generate_Some[OF g2] obtain ps2 where
    p2: "generateTreePositions lib (terrain this1)
           (Math_min (width (config this1)) (height (config this1)))
           (generate_density (config this1) b) (Num 123) = Some ps2"
    and t2: "this2 = this1\<lparr>trees := trees this1 @ map (\<lambda>position. createTree position (treeConfig this1)) ps2\<rparr>"
    by blast
  have "generateTreePositions lib (terrain this)
           (Math_min (width (config this)) (height (config this)))
           (generate_density (config this) b) (Num 123) = Some ps2"
    using p2 by (simp add: t1)
  moreover have "trees this1 = trees this @ map (\<lambda>position. createTree position (treeConfig this)) ps1"
    by (simp add: t1)
  moreover have "trees this2 = trees this1 @ map (\<lambda>position. createTree position (treeConfig this)) ps2"
    by (simp add: t2 t1)
  moreover have "terrain this2 = terrain this" "config this2 = config this"
    "treeConfig this2 = treeConfig this"
    by (simp_all add: t2 t1)
  moreover have "treeCount (getStats this2) = Num (real (length (trees this) + length ps1 + length ps2))"
    by (simp add: getStats_def t2 t1)
  ultimately show "\<exists>ps1 ps2.
         generateTreePositions lib (terrain this)
           (Math_min (width (config this)) (height (config this)))
           (generate_density (config this) a) (Num 123) = Some ps1
       \<and> generateTreePositions lib (terrain this)
           (Math_min (width (config this)) (height (config this)))
           (generate_density (config this) b) (Num 123) = Some ps2
       \<and> trees this1 = trees this @ map (\<lambda>position. createTree position (treeConfig this)) ps1
       \<and> trees this2 = trees this1 @ map (\<lambda>position. createTree position (treeConfig this)) ps2
       \<and> terrain this2 = terrain this \<and> config this2 = config this
       \<and> treeConfig this2 = treeConfig this
       \<and> treeCount (getStats this2) =
           Num (real (length (trees this) + length ps1 + length ps2))"
    using p1 by blast
next
  fix sc this'
  assume r: "regenerate lib this s = Some (sc, this')"
  from regenerate_Some[OF r]
  show "\<exists>ps. generateTreePositions lib (createTerrain lib (config this))
                  (Math_min (width (config this)) (height (config this))) (Num 0.05) s = Some ps
              \<and> trees this' = map (\<lambda>position. createTree position (treeConfig this)) ps
              \<and> treeCount (getStats this') = Num (real (length ps))"
    by (auto simp: getStats_def)
next
  fix g da db
  assume h: "Math_min (width (config this)) (height (config this)) = Num g \<and> \<bar>g\<bar> \<le> 1000
         \<and> generate_density (config this) a = Num da \<and> 0 < da \<and> da \<le> 1000
         \<and> generate_density (config this) b = Num db \<and> 0 < db \<and> db \<le> 1000"
  then have da: "0 < da" and db: "0 < db" by simp_all
  obtain ps1 where p1: "generateTreePositions lib (terrain this) (Num g) (Num da) (Num 123) = Some ps1"
    using generateTreePositions_returns[OF da] by blast
  obtain ps2 where p2: "generateTreePositions lib (terrain this) (Num g) (Num db) (Num 123) = Some ps2"
    using generateTreePositions_returns[OF db] by blast
  show "\<exists>sc1 this1 sc2 this2.
            generate lib this a = Some (sc1, this1) \<and> generate lib this1 b = Some (sc2, this2)"
    using h p1 p2 by (simp add: generate_def Let_def)
next
  fix g
  assume "Math_min (width (config this)) (height (config this)) = Num g \<and> \<bar>g\<bar> \<le> 1000"
  then show "\<exists>sc this'. regenerate lib this s = Some (sc, this')"
    using regenerate_returns[of this g lib s] by blast
qed

theorem generate_accumulates_trees_witness:
  "\<exists>sc1 this1 sc2 this2 sc3 this3.
      generate one_segment_plane
        (new_TerrainGenerator one_segment_plane small_config default_treeConfig) None
        = Some (sc1, this1)
    \<and> generate one_segment_plane this1 None = Some (sc2, this2)
    \<and> createTree (Vector3 (Num 0) (Num (1 / 2)) (Num (- 2))) default_treeConfig
         \<in> set (trees this1)
    \<and> 0 < length (trees this1)
    \<and> treeCount (getStats this2) = Num (real (2 * length (trees this1)))
    \<and> regenerate one_segment_plane this2 NaN = Some (sc3, this3)
    \<and> trees this3 = [] \<and> treeCount (getStats this3) = Num 0"
proof -
  let ?L = one_segment_plane
  let ?T = "new_TerrainGenerator ?L small_config default_treeConfig"
  have c: "config ?T = small_config" "trees ?T = []" "treeConfig ?T = default_treeConfig"
    by (simp_all add: new_TerrainGenerator_def)
  have m: "Math_min (width small_config) (height small_config) = Num 4"
    by (simp add: small_config_fields)
  have d: "generate_density small_config None = Num (1 / 20)"
    by (simp add: generate_density_def)
  have pass: "generateTreePositions ?L surface (Num 4) (Num (1 / 20)) seed
                = Some (spec_anchors ?L surface seed [Num (- 2), Num 0])" for surface seed
    using generateTreePositions_rounds[OF rounds_4, of ?L surface seed] unfolding values_4 .
  note t = generate_accumulates_trees[of ?L ?T None None "Num 0"]
  have "Math_min (width (config ?T)) (height (config ?T)) = Num 4 \<and> \<bar>4::real\<bar> \<le> 1000
         \<and> generate_density (config ?T) None = Num (1 / 20) \<and> (0::real) < 1 / 20
         \<and> (1::real) / 20 \<le> 1000
         \<and> generate_density (config ?T) None = Num (1 / 20) \<and> (0::real) < 1 / 20
         \<and> (1::real) / 20 \<le> 1000"
    unfolding c m d by simp
  with t obtain sc1 this1 sc2 this2 where
    g: "generate ?L ?T None = Some (sc1, this1)" "generate ?L this1 None = Some (sc2, this2)"
    by blast
  from t[THEN conjunct1, rule_format, OF g] obtain ps1 ps2 where
    p: "generateTreePositions ?L (terrain ?T) (Math_min (width (config ?T)) (height (config ?T)))
           (generate_density (config ?T) None) (Num 123) = Some ps1"
       "generateTreePositions ?L (terrain ?T) (Math_min (width (config ?T)) (height (config ?T)))
           (generate_density (config ?T) None) (Num 123) = Some ps2"
    and tr: "trees this1 = trees ?T @ map (\<lambda>position. createTree position (treeConfig ?T)) ps1"
    and cf: "config this2 = config ?T"
    and n: "treeCount (getStats this2) = Num (real (length (trees ?T) + length ps1 + length ps2))"
    by blast
  have e: "ps1 = ps2" using p by simp
  have ps1: "ps1 = spec_anchors ?L (terrain ?T) (Num 123) [Num (- 2), Num 0]"
    using p(1) unfolding c m d pass by simp
  have "Vector3 (Num 0) (Num (1 / 2)) (Num (- 2)) \<in> set ps1"
    unfolding ps1 spec_anchors_member using anchor_seed_123[of "terrain ?T"] by simp
  then have mem: "createTree (Vector3 (Num 0) (Num (1 / 2)) (Num (- 2))) default_treeConfig
                    \<in> set (trees this1)"
    unfolding tr c by simp
  then have pos: "0 < length (trees this1)"
    by (cases "trees this1") simp_all
  have cnt: "treeCount (getStats this2) = Num (real (2 * length (trees this1)))"
    using tr n c(2) e by simp
  note t3 = generate_accumulates_trees[of ?L this2 None None NaN]
  have "Math_min (width (config this2)) (height (config this2)) = Num 4 \<and> \<bar>4::real\<bar> \<le> 1000"
    unfolding cf c m by simp
  with t3 obtain sc3 this3 where r: "regenerate ?L this2 NaN = Some (sc3, this3)"
    by blast
  from t3[THEN conjunct2, THEN conjunct1, rule_format, OF r] obtain ps3 where
    p3: "generateTreePositions ?L (createTerrain ?L (config this2))
           (Math_min (width (config this2)) (height (config this2))) (Num 0.05) NaN = Some ps3"
    and tr3: "trees this3 = map (\<lambda>position. createTree position (treeConfig this2)) ps3"
    and n3: "treeCount (getStats this3) = Num (real (length ps3))"
    by blast
  have "ps3 = []"
    using p3 unfolding cf c m by (simp add: pass spec_anchors_seed_NaN)
  then have "trees this3 = []" "treeCount (getStats this3) = Num 0"
    using tr3 n3 by simp_all
  with g mem pos cnt r show ?thesis by blast
qed

end
